theory Spec2Isabelle
  imports Complex_Main
begin

section \<open>The expense tracker with backend synchronisation\<close>

text \<open>
  The development embeds the screen component that keeps a list of expenses in React
  state, mirrors it in AsyncStorage under one key and synchronises it with a backend
  over three HTTP endpoints (the component with \<^verbatim>\<open>checkNetworkStatus\<close>,
  \<^verbatim>\<open>loadExpenses\<close>, \<^verbatim>\<open>loadDataFromDatabase\<close>, \<^verbatim>\<open>saveExpenses\<close>,
  \<^verbatim>\<open>syncWithBackend\<close>, \<^verbatim>\<open>saveExpenseToBackend\<close>, \<^verbatim>\<open>addExpense\<close>,
  \<^verbatim>\<open>deleteExpense\<close> and \<^verbatim>\<open>retrySync\<close>).

  How the TypeScript is read:
  \<^item> The component is a function component. Every handler is a closure created by one
    render, and the state variables it mentions (\<^verbatim>\<open>expenses\<close>, \<^verbatim>\<open>isOnline\<close>,
    \<^verbatim>\<open>title\<close>, \<^verbatim>\<open>amount\<close>, \<^verbatim>\<open>category\<close>) are constants of that render: a
    setter call never changes what the running handler reads, it only fixes what the
    next render will see. A handler therefore takes the captured values as a record
    \<open>c\<close> that it only reads, and the values written by setters are kept apart, in the
    field \<open>pending\<close> of the world. A handler started by the user runs with the values
    of the latest render, \<open>c = pending w\<close>.
  \<^item> An \<^verbatim>\<open>async\<close> function returns a promise; \<^verbatim>\<open>await\<close> of a rejected promise
    throws. A model function returns the way its promise settles together with the new
    world, and every \<^verbatim>\<open>try\<close>/\<^verbatim>\<open>catch\<close> of the source is a case distinction on it.
  \<^item> What the network and the device storage answer is not decided by the program. It
    is given by an environment: the outcome of the n-th request, the time it takes, and
    whether the n-th storage operation succeeds.
  \<^item> \<^verbatim>\<open>console.log\<close> and \<^verbatim>\<open>console.error\<close> have no effect on anything modelled
    and are left out.
  \<^item> One handler runs at a time, from start to end. The effect that starts
    \<^verbatim>\<open>loadExpenses\<close> and \<^verbatim>\<open>checkNetworkStatus\<close> side by side when the screen is
    mounted, and handlers that overlap in time, are not modelled.
\<close>

subsection \<open>Values\<close>

text \<open>
  A JavaScript number as far as the component can tell numbers apart. \<open>Null\<close> is not a
  number: it is what \<^verbatim>\<open>JSON.stringify\<close> writes for a number that is not finite, so an
  amount read back from a stored snapshot can be \<^verbatim>\<open>null\<close>.
\<close>

datatype jsnum = NaN | PosInf | NegInf | Fin rat | Null

text \<open>
  Text the user types is kept as the language has it, a sequence of UTF-16 code units,
  because \<^verbatim>\<open>trim\<close> and \<^verbatim>\<open>parseFloat\<close> look at its characters. \<open>js\<close> writes
  such a text from its ASCII spelling. The other strings of the component are only
  compared, stored and printed; they are byte strings.
\<close>

type_synonym jsstring = "nat list"

definition js :: "string \<Rightarrow> jsstring" where
  "js s = map of_char s"

text \<open>\<^verbatim>\<open>interface Expense\<close>; \<open>None\<close> is an absent optional field.\<close>

record expense =
  id' :: string
  title :: jsstring
  amount :: jsnum
  category :: string
  date :: string
  synced :: "bool option"
  backendId :: "int option"

text \<open>The state variables of the component, as one render sees them.\<close>

record state =
  expenses :: "expense list"
  titleInput :: jsstring
  amountInput :: jsstring
  categoryInput :: string
  isOnline :: bool
  isLoading :: bool

text \<open>
  The parsed body of a response. The component reads \<^verbatim>\<open>json.status\<close>,
  \<^verbatim>\<open>json.expenseList\<close>, \<^verbatim>\<open>json.id\<close> and \<^verbatim>\<open>json.message\<close>.
\<close>

record json =
  status :: bool
  expenseList :: "expense list option"
  id_json :: "int option"
  message :: "string option"

text \<open>\<open>Unreadable\<close>: \<^verbatim>\<open>response.json()\<close> rejects.\<close>

datatype body = Unreadable | Json json

text \<open>A response carries \<^verbatim>\<open>response.ok\<close> and its body.\<close>

datatype response = Response bool body

datatype 'a promise = Resolved 'a | Rejected

datatype request = LoadExpenses | SaveExpenses expense | DeleteExpenses string

datatype alert = SUCCESS | DANGER | WARNING

text \<open>Every call a handler makes to something outside itself, in the order made.\<close>

datatype event =
    Fetch request
  | SetItem "expense list" bool
  | GetItem bool
  | Toast alert string string
  | DialogHide
  | SetExpenses "expense list"
  | SetIsOnline bool
  | SetIsLoading bool
  | SetTitle jsstring
  | SetAmount jsstring
  | SetCategory string

text \<open>
  The environment. \<open>net n\<close> is how the n-th \<^verbatim>\<open>fetch\<close> settles (rejected: no response was
  received), \<open>delay n\<close> the milliseconds it takes, \<open>disk n\<close> whether the n-th AsyncStorage
  call resolves. \<open>now\<close> is \<^verbatim>\<open>Date.now()\<close>, \<open>rnd\<close> is
  \<^verbatim>\<open>Math.random().toString(36).substr(2, 9)\<close> and \<open>today\<close> is
  \<^verbatim>\<open>new Date().toLocaleDateString()\<close>. \<open>numberToString\<close> is how the language prints
  the number in \<^verbatim>\<open>backendId\<close> when it is concatenated to a string.
\<close>

record env =
  net :: "nat \<Rightarrow> response promise"
  delay :: "nat \<Rightarrow> nat"
  disk :: "nat \<Rightarrow> bool"
  now :: nat
  rnd :: string
  today :: string
  numberToString :: "int \<Rightarrow> string"

text \<open>
  Everything a handler can change: the state the next render will see, the item stored
  under \<^verbatim>\<open>STORAGE_KEY\<close> (the list whose serialisation it holds), the trace of calls
  made so far, and how many requests and storage calls have been made.
\<close>

record world =
  pending :: state
  storage :: "expense list option"
  trace :: "event list"
  nfetch :: nat
  nstore :: nat

subsection \<open>Strings and numbers of the language\<close>

text \<open>
  The code units that \<^verbatim>\<open>String.prototype.trim\<close> and \<^verbatim>\<open>parseFloat\<close> strip: the white
  space and line terminators of the language. These are TAB, LF, VT, FF, CR, SPACE,
  U+00A0, U+1680, U+2000 to U+200A, U+2028, U+2029, U+202F, U+205F, U+3000 and U+FEFF,
  all of one code unit.
\<close>

definition isWhiteSpace :: "nat \<Rightarrow> bool" where
  "isWhiteSpace u \<longleftrightarrow>
     u \<in> {9, 10, 11, 12, 13, 32, 160, 5760, 8232, 8233, 8239, 8287, 12288, 65279} \<or>
     (8192 \<le> u \<and> u \<le> 8202)"

definition trimStart :: "jsstring \<Rightarrow> jsstring" where
  "trimStart s = dropWhile isWhiteSpace s"

definition trim :: "jsstring \<Rightarrow> jsstring" where
  "trim s = rev (dropWhile isWhiteSpace (rev (dropWhile isWhiteSpace s)))"

text \<open>The digits \<^verbatim>\<open>0\<close> to \<^verbatim>\<open>9\<close> are the code units 48 to 57.\<close>

definition isDigit :: "nat \<Rightarrow> bool" where
  "isDigit u \<longleftrightarrow> 48 \<le> u \<and> u \<le> 57"

definition digitsVal :: "jsstring \<Rightarrow> nat" where
  "digitsVal ds = foldl (\<lambda>a u. 10 * a + (u - 48)) 0 ds"

text \<open>A leading \<^verbatim>\<open>-\<close> (code unit 45) or \<^verbatim>\<open>+\<close> (43).\<close>

definition skipSign :: "jsstring \<Rightarrow> bool \<times> jsstring" where
  "skipSign s =
     (case s of
        [] \<Rightarrow> (False, [])
      | u # r \<Rightarrow>
          if u = 45 then (True, r)
          else if u = 43 then (False, r)
          else (False, s))"

text \<open>
  The value of the exponent part a string starts with (\<^verbatim>\<open>e\<close>, code unit 101, or
  \<^verbatim>\<open>E\<close>, 69, then an optional sign and at least one digit), and 0 when it starts
  with none.
\<close>

definition exponentPart :: "jsstring \<Rightarrow> int" where
  "exponentPart s =
     (case s of
        [] \<Rightarrow> 0
      | u # r \<Rightarrow>
          if u = 101 \<or> u = 69 then
            (case skipSign r of
               (neg, d) \<Rightarrow>
                 let ds = takeWhile isDigit d in
                 if ds = [] then 0
                 else if neg then - int (digitsVal ds) else int (digitsVal ds))
          else 0)"

text \<open>
  Conversion of an exact decimal value to a double, as far as the class of the result
  goes: a magnitude that rounds beyond the largest double is infinite, one that rounds
  below the smallest is zero. Rounding of the mantissa is not modelled; no comparison
  the component makes depends on it.
\<close>

definition toDouble :: "rat \<Rightarrow> jsnum" where
  "toDouble q =
     (if 2 ^ 1024 - 2 ^ 970 \<le> \<bar>q\<bar> then (if q < 0 then NegInf else PosInf)
      else if \<bar>q\<bar> \<le> 1 / 2 ^ 1075 then Fin 0
      else Fin q)"

text \<open>
  \<^verbatim>\<open>parseFloat\<close>: leading white space is skipped, then the longest prefix that is a
  decimal literal is converted (a sign, then \<^verbatim>\<open>Infinity\<close> or digits with an optional
  fraction after the point, code unit 46, and exponent); the rest of the string is
  ignored; NaN when there is no such prefix.
\<close>

definition parseFloat :: "jsstring \<Rightarrow> jsnum" where
  "parseFloat s =
     (case skipSign (trimStart s) of
        (neg, u) \<Rightarrow>
          if take 8 u = js ''Infinity'' then (if neg then NegInf else PosInf)
          else
            let ip = takeWhile isDigit u;
                r1 = dropWhile isDigit u;
                fp = (case r1 of [] \<Rightarrow> [] | p # r \<Rightarrow>
                        if p = 46 then takeWhile isDigit r else []);
                r2 = (case r1 of [] \<Rightarrow> [] | p # r \<Rightarrow>
                        if p = 46 then dropWhile isDigit r else r1)
            in if ip = [] \<and> fp = [] then NaN
               else
                 let m = (of_nat (digitsVal (ip @ fp)) :: rat);
                     e = exponentPart r2 - int (length fp);
                     v = (if 0 \<le> e then m * 10 ^ nat e else m / 10 ^ nat (- e))
                 in toDouble (if neg then - v else v))"

text \<open>\<^verbatim>\<open>isNaN(x)\<close> and \<^verbatim>\<open>x <= 0\<close> on a number (\<^verbatim>\<open>null\<close> converts to 0).\<close>

fun isNaN :: "jsnum \<Rightarrow> bool" where
  "isNaN NaN = True"
| "isNaN _ = False"

fun le0 :: "jsnum \<Rightarrow> bool" where
  "le0 NaN = False"
| "le0 PosInf = False"
| "le0 NegInf = True"
| "le0 (Fin q) = (q \<le> 0)"
| "le0 Null = True"

text \<open>Decimal digits of a natural number and of an integer, as template literals and
  string concatenation print them.\<close>

fun showNat :: "nat \<Rightarrow> string" where
  "showNat n =
     (if n < 10 then [''0123456789'' ! n]
      else showNat (n div 10) @ [''0123456789'' ! (n mod 10)])"

declare showNat.simps [simp del]

definition showInt :: "int \<Rightarrow> string" where
  "showInt i = (if i < 0 then CHR ''-'' # showNat (nat (- i)) else showNat (nat i))"

text \<open>
  What \<^verbatim>\<open>JSON.parse\<close> returns for what \<^verbatim>\<open>JSON.stringify\<close> wrote: every field as it
  was, except that an amount that is not finite comes back as \<^verbatim>\<open>null\<close>.
\<close>

definition jsonAmount :: "jsnum \<Rightarrow> jsnum" where
  "jsonAmount a = (case a of Fin q \<Rightarrow> Fin q | _ \<Rightarrow> Null)"

definition jsonRoundTrip :: "expense list \<Rightarrow> expense list" where
  "jsonRoundTrip xs = map (\<lambda>e. e\<lparr>amount := jsonAmount (amount e)\<rparr>) xs"

subsection \<open>Calls out of the component\<close>

definition emit :: "event \<Rightarrow> world \<Rightarrow> world" where
  "emit e w = w\<lparr>trace := trace w @ [e]\<rparr>"

definition setExpenses :: "expense list \<Rightarrow> world \<Rightarrow> world" where
  "setExpenses xs w = emit (SetExpenses xs) (w\<lparr>pending := (pending w)\<lparr>expenses := xs\<rparr>\<rparr>)"

definition setIsOnline :: "bool \<Rightarrow> world \<Rightarrow> world" where
  "setIsOnline b w = emit (SetIsOnline b) (w\<lparr>pending := (pending w)\<lparr>isOnline := b\<rparr>\<rparr>)"

definition setIsLoading :: "bool \<Rightarrow> world \<Rightarrow> world" where
  "setIsLoading b w = emit (SetIsLoading b) (w\<lparr>pending := (pending w)\<lparr>isLoading := b\<rparr>\<rparr>)"

definition setTitle :: "jsstring \<Rightarrow> world \<Rightarrow> world" where
  "setTitle s w = emit (SetTitle s) (w\<lparr>pending := (pending w)\<lparr>titleInput := s\<rparr>\<rparr>)"

definition setAmount :: "jsstring \<Rightarrow> world \<Rightarrow> world" where
  "setAmount s w = emit (SetAmount s) (w\<lparr>pending := (pending w)\<lparr>amountInput := s\<rparr>\<rparr>)"

definition setCategory :: "string \<Rightarrow> world \<Rightarrow> world" where
  "setCategory s w = emit (SetCategory s) (w\<lparr>pending := (pending w)\<lparr>categoryInput := s\<rparr>\<rparr>)"

text \<open>\<^verbatim>\<open>Toast.show({type, title, textBody})\<close>.\<close>

definition toast :: "alert \<Rightarrow> string \<Rightarrow> string \<Rightarrow> world \<Rightarrow> world" where
  "toast ty ti tx w = emit (Toast ty ti tx) w"

text \<open>\<^verbatim>\<open>fetch\<close>: the request is issued and settles as the environment says.\<close>

definition fetch :: "env \<Rightarrow> request \<Rightarrow> world \<Rightarrow> response promise \<times> world" where
  "fetch ev rq w = (net ev (nfetch w), emit (Fetch rq) (w\<lparr>nfetch := Suc (nfetch w)\<rparr>))"

text \<open>\<^verbatim>\<open>AsyncStorage.setItem(STORAGE_KEY, JSON.stringify(xs))\<close>.\<close>

definition setItem :: "env \<Rightarrow> expense list \<Rightarrow> world \<Rightarrow> unit promise \<times> world" where
  "setItem ev xs w =
     (if disk ev (nstore w)
      then (Resolved (), emit (SetItem xs True) (w\<lparr>storage := Some xs, nstore := Suc (nstore w)\<rparr>))
      else (Rejected, emit (SetItem xs False) (w\<lparr>nstore := Suc (nstore w)\<rparr>)))"

text \<open>
  \<^verbatim>\<open>AsyncStorage.getItem(STORAGE_KEY)\<close> followed, when an item is there, by
  \<^verbatim>\<open>JSON.parse\<close>: \<open>Resolved None\<close> is \<^verbatim>\<open>null\<close>, no item stored.
\<close>

definition getItem :: "env \<Rightarrow> world \<Rightarrow> expense list option promise \<times> world" where
  "getItem ev w =
     (if disk ev (nstore w)
      then (Resolved (map_option jsonRoundTrip (storage w)),
            emit (GetItem True) (w\<lparr>nstore := Suc (nstore w)\<rparr>))
      else (Rejected, emit (GetItem False) (w\<lparr>nstore := Suc (nstore w)\<rparr>)))"

subsection \<open>The handlers\<close>

text \<open>
  \<^verbatim>\<open>Promise.race([fetchPromise, timeoutPromise])\<close>, the second promise rejecting after
  5000 milliseconds: the request counts only when it settles before the timer fires.
\<close>

definition race :: "nat \<Rightarrow> response promise \<Rightarrow> response promise" where
  "race ms r = (if ms < 5000 then r else Rejected)"

definition checkNetworkStatus :: "env \<Rightarrow> world \<Rightarrow> unit promise \<times> world" where
  "checkNetworkStatus ev w =
     (case fetch ev LoadExpenses w of
        (r, w1) \<Rightarrow>
          (case race (delay ev (nfetch w)) r of
             Resolved (Response ok b) \<Rightarrow> (Resolved (), setIsOnline ok w1)
           | Rejected \<Rightarrow> (Resolved (), setIsOnline False w1)))"

text \<open>The \<^verbatim>\<open>try\<close> block of \<^verbatim>\<open>loadDataFromDatabase\<close>, then the function with its
  \<^verbatim>\<open>catch\<close>, which reports, goes offline and throws again.\<close>

definition loadDataFromDatabase_try :: "env \<Rightarrow> world \<Rightarrow> unit promise \<times> world" where
  "loadDataFromDatabase_try ev w =
     (case fetch ev LoadExpenses w of
        (Rejected, w1) \<Rightarrow> (Rejected, w1)
      | (Resolved (Response ok b), w1) \<Rightarrow>
          if ok then
            (case b of
               Unreadable \<Rightarrow> (Rejected, w1)
             | Json j \<Rightarrow>
                 (case expenseList j of
                    Some xs \<Rightarrow>
                      if status j then
                        (let syncedExpenses = map (\<lambda>expense. expense\<lparr>synced := Some True\<rparr>) xs
                         in setItem ev syncedExpenses (setExpenses syncedExpenses w1))
                      else (Resolved (),
                            toast WARNING ''Server Error'' ''Failed to load expenses from server'' w1)
                  | None \<Rightarrow>
                      (Resolved (),
                       toast WARNING ''Server Error'' ''Failed to load expenses from server'' w1)))
          else (Resolved (),
                setIsOnline False (toast DANGER ''Network Error'' ''Could not connect to server'' w1)))"

definition loadDataFromDatabase :: "env \<Rightarrow> world \<Rightarrow> unit promise \<times> world" where
  "loadDataFromDatabase ev w =
     (case loadDataFromDatabase_try ev w of
        (Rejected, w1) \<Rightarrow>
          (Rejected,
           setIsOnline False (toast DANGER ''Connection Error'' ''Failed to connect to server'' w1))
      | (Resolved u, w1) \<Rightarrow> (Resolved u, w1))"

text \<open>
  The lines that read the stored snapshot, which \<^verbatim>\<open>loadExpenses\<close> has twice:
  \<^verbatim>\<open>const stored = await AsyncStorage.getItem(STORAGE_KEY);
  if (stored) setExpenses(JSON.parse(stored));\<close>
\<close>

definition readStored :: "env \<Rightarrow> world \<Rightarrow> unit promise \<times> world" where
  "readStored ev w =
     (case getItem ev w of
        (Rejected, w1) \<Rightarrow> (Rejected, w1)
      | (Resolved None, w1) \<Rightarrow> (Resolved (), w1)
      | (Resolved (Some parsedExpenses), w1) \<Rightarrow> (Resolved (), setExpenses parsedExpenses w1))"

text \<open>
  \<^verbatim>\<open>loadExpenses\<close>: the \<^verbatim>\<open>catch\<close> reports and reads the stored snapshot inside a
  \<^verbatim>\<open>try\<close> of its own, whose \<^verbatim>\<open>catch\<close> only logs; \<^verbatim>\<open>finally\<close> clears the loading
  flag.
\<close>

definition loadExpenses :: "state \<Rightarrow> env \<Rightarrow> world \<Rightarrow> unit promise \<times> world" where
  "loadExpenses c ev w =
     (case (if isOnline c then loadDataFromDatabase ev (setIsLoading True w)
            else readStored ev (setIsLoading True w)) of
        (Resolved u, w1) \<Rightarrow> (Resolved (), setIsLoading False w1)
      | (Rejected, w1) \<Rightarrow>
          (case readStored ev
                  (toast WARNING ''Loading Failed''
                     ''Could not load expenses. Using local data.'' w1) of
             (r, w2) \<Rightarrow> (Resolved (), setIsLoading False w2)))"

text \<open>\<^verbatim>\<open>json.message || 'Failed to save to server'\<close>: an empty string is falsy.\<close>

definition messageOr :: "string option \<Rightarrow> string \<Rightarrow> string" where
  "messageOr m d = (case m of None \<Rightarrow> d | Some t \<Rightarrow> if t = [] then d else t)"

text \<open>
  The function \<^verbatim>\<open>saveExpenseToBackend\<close> maps over the list:
  \<^verbatim>\<open>exp => exp.id === expense.id ? { ...exp, synced: true, backendId: json.id } : exp\<close>
\<close>

definition markSynced :: "expense \<Rightarrow> json \<Rightarrow> expense \<Rightarrow> expense" where
  "markSynced expense j e =
     (if id' e = id' expense then e\<lparr>synced := Some True, backendId := id_json j\<rparr> else e)"

text \<open>
  \<^verbatim>\<open>saveExpenseToBackend\<close>. The list it maps over is \<^verbatim>\<open>expenses\<close>, the state variable
  of the render that created the closure, not the list being synchronised.
\<close>

definition saveExpenseToBackend_try ::
    "state \<Rightarrow> env \<Rightarrow> expense \<Rightarrow> world \<Rightarrow> unit promise \<times> world" where
  "saveExpenseToBackend_try c ev expense w =
     (case fetch ev (SaveExpenses expense) w of
        (Rejected, w1) \<Rightarrow> (Rejected, w1)
      | (Resolved (Response ok b), w1) \<Rightarrow>
          if ok then
            (case b of
               Unreadable \<Rightarrow> (Rejected, w1)
             | Json j \<Rightarrow>
                 if status j then
                   (let updatedExpenses = map (markSynced expense j) (expenses c)
                    in setItem ev updatedExpenses (setExpenses updatedExpenses w1))
                 else (Resolved (),
                       toast DANGER ''Server Error''
                         (messageOr (message j) ''Failed to save to server'') w1))
          else (Resolved (),
                setIsOnline False (toast DANGER ''Network Error'' ''Could not connect to server'' w1)))"

definition saveExpenseToBackend ::
    "state \<Rightarrow> env \<Rightarrow> expense \<Rightarrow> world \<Rightarrow> unit promise \<times> world" where
  "saveExpenseToBackend c ev expense w =
     (case saveExpenseToBackend_try c ev expense w of
        (Rejected, w1) \<Rightarrow>
          (Rejected,
           setIsOnline False (toast DANGER ''Connection Error'' ''Failed to connect to server'' w1))
      | (Resolved u, w1) \<Rightarrow> (Resolved u, w1))"

text \<open>\<^verbatim>\<open>for (const expense of unsyncedExpenses) await saveExpenseToBackend(expense)\<close>:
  a rejected push ends the loop.\<close>

fun saveEach :: "state \<Rightarrow> env \<Rightarrow> expense list \<Rightarrow> world \<Rightarrow> unit promise \<times> world" where
  "saveEach c ev [] w = (Resolved (), w)"
| "saveEach c ev (expense # rest) w =
     (case saveExpenseToBackend c ev expense w of
        (Rejected, w1) \<Rightarrow> (Rejected, w1)
      | (Resolved u, w1) \<Rightarrow> saveEach c ev rest w1)"

text \<open>\<^verbatim>\<open>!exp.synced\<close>: the flag is absent or false.\<close>

definition unsynced :: "expense \<Rightarrow> bool" where
  "unsynced e \<longleftrightarrow> synced e \<noteq> Some True"

definition syncWithBackend_try ::
    "state \<Rightarrow> env \<Rightarrow> expense list \<Rightarrow> world \<Rightarrow> unit promise \<times> world" where
  "syncWithBackend_try c ev expensesToSync w =
     (let unsyncedExpenses = filter unsynced expensesToSync in
      if length unsyncedExpenses = 0 then (Resolved (), w)
      else
        (case saveEach c ev unsyncedExpenses w of
           (Rejected, w1) \<Rightarrow> (Rejected, w1)
         | (Resolved u, w1) \<Rightarrow> loadDataFromDatabase ev w1))"

definition syncWithBackend ::
    "state \<Rightarrow> env \<Rightarrow> expense list \<Rightarrow> world \<Rightarrow> unit promise \<times> world" where
  "syncWithBackend c ev expensesToSync w =
     (case syncWithBackend_try c ev expensesToSync w of
        (Rejected, w1) \<Rightarrow>
          (Resolved (),
           toast WARNING ''Sync Failed'' ''Could not sync with server. Data saved locally.'' w1)
      | (Resolved u, w1) \<Rightarrow> (Resolved u, w1))"

definition saveExpenses ::
    "state \<Rightarrow> env \<Rightarrow> expense list \<Rightarrow> world \<Rightarrow> unit promise \<times> world" where
  "saveExpenses c ev newExpenses w =
     (case setItem ev newExpenses w of
        (Rejected, w1) \<Rightarrow>
          (Resolved (), toast DANGER ''Save Error'' ''Failed to save expense locally'' w1)
      | (Resolved u, w1) \<Rightarrow>
          if isOnline c then syncWithBackend c ev newExpenses w1 else (Resolved (), w1))"

text \<open>The record \<^verbatim>\<open>addExpense\<close> builds once the form has passed its checks.\<close>

definition newExpense :: "state \<Rightarrow> env \<Rightarrow> expense" where
  "newExpense c ev =
     \<lparr>id' = ''tmp-'' @ showNat (now ev) @ ''-'' @ rnd ev,
      title = trim (titleInput c),
      amount = parseFloat (amountInput c),
      category = categoryInput c,
      date = today ev,
      synced = Some False,
      backendId = None\<rparr>"

definition addExpense :: "state \<Rightarrow> env \<Rightarrow> world \<Rightarrow> unit promise \<times> world" where
  "addExpense c ev w =
     (if trim (titleInput c) = [] \<or> trim (amountInput c) = [] then
        (Resolved (), toast DANGER ''Error'' ''Please fill in all fields'' w)
      else
        let numAmount = parseFloat (amountInput c) in
        if isNaN numAmount \<or> le0 numAmount then
          (Resolved (), toast DANGER ''Error'' ''Please enter a valid amount greater than 0'' w)
        else
          (let updatedExpenses = newExpense c ev # expenses c in
           case saveExpenses c ev updatedExpenses (setExpenses updatedExpenses w) of
             (Rejected, w1) \<Rightarrow> (Rejected, w1)
           | (Resolved u, w1) \<Rightarrow>
               (Resolved (),
                toast SUCCESS ''Success'' ''Expense added successfully''
                  (setCategory ''Food'' (setAmount [] (setTitle [] w1))))))"

text \<open>\<^verbatim>\<open>expenseToDelete.backendId || id\<close>, as the concatenation to the URL prints
  it: 0 is falsy, and a number is printed the way the language prints numbers.\<close>

definition deleteId :: "env \<Rightarrow> expense \<Rightarrow> string \<Rightarrow> string" where
  "deleteId ev expenseToDelete i =
     (case backendId expenseToDelete of
        None \<Rightarrow> i
      | Some n \<Rightarrow> if n = 0 then i else numberToString ev n)"

text \<open>The branch of \<^verbatim>\<open>deleteExpense\<close> that asks the backend to delete.\<close>

definition deleteOnBackend :: "env \<Rightarrow> string \<Rightarrow> world \<Rightarrow> unit promise \<times> world" where
  "deleteOnBackend ev did w =
     (case fetch ev (DeleteExpenses did) w of
        (Rejected, w1) \<Rightarrow> (Rejected, w1)
      | (Resolved (Response ok b), w1) \<Rightarrow>
          if ok then
            (case b of
               Unreadable \<Rightarrow> (Rejected, w1)
             | Json j \<Rightarrow>
                 if status j then
                   loadDataFromDatabase ev
                     (toast SUCCESS ''Success'' ''Expense deleted successfully'' w1)
                 else (Resolved (),
                       toast WARNING ''Partial Success''
                         ''Deleted locally, but server delete failed'' w1))
          else (Resolved (),
                toast WARNING ''Network Error''
                  ''Deleted locally, could not sync with server'' w1))"

text \<open>The other branch: \<^verbatim>\<open>// Just save the updated list locally\<close>.\<close>

definition deleteLocally :: "env \<Rightarrow> expense list \<Rightarrow> world \<Rightarrow> unit promise \<times> world" where
  "deleteLocally ev updatedExpenses w =
     (case setItem ev updatedExpenses w of
        (Rejected, w1) \<Rightarrow> (Rejected, w1)
      | (Resolved u, w1) \<Rightarrow>
          (Resolved (), toast SUCCESS ''Success'' ''Expense deleted successfully'' w1))"

text \<open>
  \<^verbatim>\<open>deleteExpense(id)\<close> with the dialog's button pressed: the \<^verbatim>\<open>try\<close> block of
  \<^verbatim>\<open>onPressButton\<close>, then the handler with its \<^verbatim>\<open>catch\<close> and \<^verbatim>\<open>finally\<close>.
  \<^verbatim>\<open>isOnline && expenseToDelete?.synced\<close> is false when no expense has the id.
\<close>

definition deleteExpense_try ::
    "state \<Rightarrow> env \<Rightarrow> string \<Rightarrow> world \<Rightarrow> unit promise \<times> world" where
  "deleteExpense_try c ev i w =
     (let expenseToDelete = find (\<lambda>exp. id' exp = i) (expenses c);
          updatedExpenses = filter (\<lambda>exp. id' exp \<noteq> i) (expenses c);
          w1 = setExpenses updatedExpenses w
      in case expenseToDelete of
           None \<Rightarrow> deleteLocally ev updatedExpenses w1
         | Some e \<Rightarrow>
             if isOnline c \<and> synced e = Some True
             then deleteOnBackend ev (deleteId ev e i) w1
             else deleteLocally ev updatedExpenses w1)"

definition deleteExpense :: "state \<Rightarrow> env \<Rightarrow> string \<Rightarrow> world \<Rightarrow> unit promise \<times> world" where
  "deleteExpense c ev i w =
     (case deleteExpense_try c ev i w of
        (Rejected, w1) \<Rightarrow>
          (Resolved (),
           emit DialogHide (toast DANGER ''Delete Failed'' ''Could not delete expense'' w1))
      | (Resolved u, w1) \<Rightarrow> (Resolved (), emit DialogHide w1))"

text \<open>\<^verbatim>\<open>retrySync\<close>: both tests read \<^verbatim>\<open>isOnline\<close> of the render that created the
  closure.\<close>

definition retrySync :: "state \<Rightarrow> env \<Rightarrow> world \<Rightarrow> unit promise \<times> world" where
  "retrySync c ev w =
     (case (if \<not> isOnline c then checkNetworkStatus ev w else (Resolved (), w)) of
        (Rejected, w1) \<Rightarrow> (Rejected, w1)
      | (Resolved u, w1) \<Rightarrow>
          if isOnline c then
            (case syncWithBackend c ev (expenses c) w1 of
               (Rejected, w2) \<Rightarrow>
                 (Resolved (), toast DANGER ''Sync Failed'' ''Could not sync with server'' w2)
             | (Resolved u2, w2) \<Rightarrow>
                 (Resolved (),
                  toast SUCCESS ''Sync Complete'' ''All expenses synced with server'' w2))
          else (Resolved (),
                toast WARNING ''Offline'' ''No internet connection available'' w1))"

text \<open>The requests in a trace, in order.\<close>

fun requests :: "event list \<Rightarrow> request list" where
  "requests [] = []"
| "requests (Fetch rq # es) = rq # requests es"
| "requests (e # es) = requests es"

subsection \<open>Vocabulary for the properties\<close>

text \<open>The form passes both checks of \<^verbatim>\<open>addExpense\<close>.\<close>

definition validForm :: "state \<Rightarrow> bool" where
  "validForm c \<longleftrightarrow>
     trim (titleInput c) \<noteq> [] \<and> trim (amountInput c) \<noteq> [] \<and>
     \<not> isNaN (parseFloat (amountInput c)) \<and> \<not> le0 (parseFloat (amountInput c))"

text \<open>
  Awaiting a request and reading its body throws: no response was received, or the
  response is ok and its body cannot be read.
\<close>

definition raises :: "response promise \<Rightarrow> bool" where
  "raises r = (case r of Rejected \<Rightarrow> True | Resolved (Response ok b) \<Rightarrow> ok \<and> b = Unreadable)"

text \<open>The backend confirms: the response is ok and its body has \<^verbatim>\<open>status: true\<close>.\<close>

definition confirmed :: "response promise \<Rightarrow> bool" where
  "confirmed r =
     (case r of
        Rejected \<Rightarrow> False
      | Resolved (Response ok b) \<Rightarrow>
          (case b of Unreadable \<Rightarrow> False | Json j \<Rightarrow> ok \<and> status j))"

text \<open>The list a confirming response to \<^verbatim>\<open>LoadExpenses\<close> delivers, if it has one.\<close>

definition delivered :: "response promise \<Rightarrow> expense list option" where
  "delivered r =
     (case r of
        Rejected \<Rightarrow> None
      | Resolved (Response ok b) \<Rightarrow>
          (case b of
             Unreadable \<Rightarrow> None
           | Json j \<Rightarrow> if ok \<and> status j then expenseList j else None))"

text \<open>The probe finds the backend: a response arrives before the timer fires and is ok.\<close>

definition reachable :: "env \<Rightarrow> nat \<Rightarrow> bool" where
  "reachable ev n =
     (case net ev n of
        Rejected \<Rightarrow> False
      | Resolved (Response ok b) \<Rightarrow> delay ev n < 5000 \<and> ok)"

text \<open>
  A deletion ends with the collection replaced by a reload: the expense was synced, the
  closure is online, the backend confirms the deletion and the reload delivers a list.
\<close>

definition replacedByReload :: "state \<Rightarrow> env \<Rightarrow> string \<Rightarrow> world \<Rightarrow> bool" where
  "replacedByReload c ev i w \<longleftrightarrow>
     isOnline c \<and>
     (case find (\<lambda>x. id' x = i) (expenses c) of None \<Rightarrow> False | Some e \<Rightarrow> synced e = Some True) \<and>
     confirmed (net ev (nfetch w)) \<and>
     delivered (net ev (Suc (nfetch w))) \<noteq> None"

subsection \<open>Concrete inputs\<close>

text \<open>The state of the first render and a device on which nothing has happened yet.\<close>

definition initialState :: state where
  "initialState =
     \<lparr>expenses = [], titleInput = [], amountInput = [], categoryInput = ''Food'',
      isOnline = True, isLoading = False\<rparr>"

definition freshWorld :: "state \<Rightarrow> world" where
  "freshWorld c = \<lparr>pending = c, storage = None, trace = [], nfetch = 0, nstore = 0\<rparr>"

text \<open>An environment with a reliable device storage and quick answers, in which the
  numbers met are integers small enough to be printed by their decimal digits.\<close>

definition envOf :: "(nat \<Rightarrow> response promise) \<Rightarrow> env" where
  "envOf answers =
     \<lparr>net = answers, delay = (\<lambda>n. 120), disk = (\<lambda>n. True),
      now = 1762150000000, rnd = ''k3j9x2p0q'', today = ''11/3/2026'',
      numberToString = showInt\<rparr>"

text \<open>Answers of the backend: an ok response whose body cannot be read, an error
  status, \<^verbatim>\<open>{status: false}\<close>,
  \<^verbatim>\<open>{status: true}\<close>, \<^verbatim>\<open>{status: true, id: n}\<close> and
  \<^verbatim>\<open>{status: true, expenseList: xs}\<close>.\<close>

definition garbled :: "response promise" where
  "garbled = Resolved (Response True Unreadable)"

definition errorStatus :: "response promise" where
  "errorStatus = Resolved (Response False Unreadable)"

definition refused :: "response promise" where
  "refused =
     Resolved (Response True
       (Json \<lparr>status = False, expenseList = None, id_json = None, message = None\<rparr>))"

definition acknowledged :: "response promise" where
  "acknowledged =
     Resolved (Response True
       (Json \<lparr>status = True, expenseList = None, id_json = None, message = None\<rparr>))"

definition created :: "int \<Rightarrow> response promise" where
  "created n =
     Resolved (Response True
       (Json \<lparr>status = True, expenseList = None, id_json = Some n, message = None\<rparr>))"

definition listed :: "expense list \<Rightarrow> response promise" where
  "listed xs =
     Resolved (Response True
       (Json \<lparr>status = True, expenseList = Some xs, id_json = None, message = None\<rparr>))"

text \<open>The form filled in for a coffee, an expense made on the device and not yet pushed,
  and one that came from the backend.\<close>

definition coffeeForm :: state where
  "coffeeForm = initialState\<lparr>titleInput := js ''Coffee'', amountInput := js ''3.50''\<rparr>"

definition lunch :: expense where
  "lunch =
     \<lparr>id' = ''tmp-1762000000000-a1b2c3d4e'', title = js ''Lunch'', amount = Fin 12,
      category = ''Food'', date = ''11/1/2026'', synced = Some False, backendId = None\<rparr>"

definition rent :: expense where
  "rent =
     \<lparr>id' = ''17'', title = js ''Rent'', amount = Fin 900, category = ''Bills'',
      date = ''10/31/2026'', synced = Some True, backendId = Some 17\<rparr>"

text \<open>An expense another client has put on the backend, as the backend sends it.\<close>

definition water :: expense where
  "water =
     \<lparr>id' = ''18'', title = js ''Water'', amount = Fin 30, category = ''Bills'',
      date = ''11/2/2026'', synced = None, backendId = None\<rparr>"

text \<open>Closures: the first render with one, another or two expenses in the list, and the
  coffee form over a list that holds the lunch.\<close>

definition lunchOnly :: state where
  "lunchOnly = initialState\<lparr>expenses := [lunch]\<rparr>"

definition lunchOnlyOffline :: state where
  "lunchOnlyOffline = initialState\<lparr>expenses := [lunch], isOnline := False\<rparr>"

definition rentOnly :: state where
  "rentOnly = initialState\<lparr>expenses := [rent]\<rparr>"

definition lunchAndRent :: state where
  "lunchAndRent = initialState\<lparr>expenses := [lunch, rent]\<rparr>"

definition coffeeAfterLunch :: state where
  "coffeeAfterLunch = coffeeForm\<lparr>expenses := [lunch]\<rparr>"

text \<open>Forms that do not pass, and one with an infinite amount, filled in offline.\<close>

definition blankTitleForm :: state where
  "blankTitleForm = coffeeForm\<lparr>titleInput := js ''   ''\<rparr>"

definition negativeAmountForm :: state where
  "negativeAmountForm = coffeeForm\<lparr>amountInput := js ''-2.5''\<rparr>"

definition lettersAmountForm :: state where
  "lettersAmountForm = coffeeForm\<lparr>amountInput := js ''abc''\<rparr>"

definition infiniteAmountForm :: state where
  "infiniteAmountForm = coffeeForm\<lparr>amountInput := js ''Infinity'', isOnline := False\<rparr>"

text \<open>A title of a no-break space and an em space (U+00A0, U+2003), and an amount text
  of a no-break space followed by the digit 5.\<close>

definition spacesTitleForm :: state where
  "spacesTitleForm = coffeeForm\<lparr>titleInput := [160, 8195]\<rparr>"

definition spaceBeforeAmountForm :: state where
  "spaceBeforeAmountForm = coffeeForm\<lparr>amountInput := 160 # js ''5''\<rparr>"

text \<open>A device that holds a snapshot with the rent.\<close>

definition withSnapshot :: "state \<Rightarrow> world" where
  "withSnapshot c = (freshWorld c)\<lparr>storage := Some [rent]\<rparr>"

text \<open>Networks: one that answers nothing, and ones that give every request, or the
  first request and then all others, a fixed answer.\<close>

definition netDown :: env where
  "netDown = envOf (\<lambda>n. Rejected)"

definition netGarbled :: env where
  "netGarbled = envOf (\<lambda>n. garbled)"

definition netError :: env where
  "netError = envOf (\<lambda>n. errorStatus)"

definition netRefuses :: env where
  "netRefuses = envOf (\<lambda>n. refused)"

definition netAcknowledges :: env where
  "netAcknowledges = envOf (\<lambda>n. acknowledged)"

definition netCreates :: env where
  "netCreates = envOf (\<lambda>n. created 42)"

definition netLists :: env where
  "netLists = envOf (\<lambda>n. listed [lunch])"

definition netRefusesThenCreates :: env where
  "netRefusesThenCreates = envOf (\<lambda>n. if n = 0 then refused else created 43)"

definition netRefusesThenListsNone :: env where
  "netRefusesThenListsNone = envOf (\<lambda>n. if n = 0 then refused else listed [])"

definition netCreatesThenError :: env where
  "netCreatesThenError = envOf (\<lambda>n. if n = 0 then created 42 else errorStatus)"

definition netCreatesThenLists :: env where
  "netCreatesThenLists = envOf (\<lambda>n. if n = 0 then created 18 else listed [rent])"

definition netAcknowledgesThenListsNone :: env where
  "netAcknowledgesThenListsNone = envOf (\<lambda>n. if n = 0 then acknowledged else listed [])"

definition netAcknowledgesThenListsWater :: env where
  "netAcknowledgesThenListsWater = envOf (\<lambda>n. if n = 0 then acknowledged else listed [water])"

text \<open>The expense the coffee form makes in these environments.\<close>

definition coffee :: expense where
  "coffee =
     \<lparr>id' = ''tmp-1762150000000-k3j9x2p0q'', title = js ''Coffee'', amount = Fin (7 / 2),
      category = ''Food'', date = ''11/3/2026'', synced = Some False, backendId = None\<rparr>"

section \<open>Properties\<close>

subsection \<open>Unfolding\<close>

lemmas effect_defs = emit_def setExpenses_def setIsOnline_def setIsLoading_def setTitle_def
  setAmount_def setCategory_def toast_def fetch_def setItem_def getItem_def

lemmas js_defs = js_def trim_def trimStart_def isWhiteSpace_def isDigit_def digitsVal_def skipSign_def
  exponentPart_def toDouble_def parseFloat_def showNat.simps showInt_def jsonRoundTrip_def
  jsonAmount_def

lemmas handler_defs = race_def checkNetworkStatus_def loadDataFromDatabase_try_def
  loadDataFromDatabase_def readStored_def loadExpenses_def messageOr_def markSynced_def
  saveExpenseToBackend_try_def saveExpenseToBackend_def unsynced_def syncWithBackend_try_def
  syncWithBackend_def saveExpenses_def newExpense_def addExpense_def deleteId_def
  deleteOnBackend_def deleteLocally_def deleteExpense_try_def deleteExpense_def retrySync_def

lemmas input_defs = initialState_def freshWorld_def envOf_def garbled_def errorStatus_def
  refused_def spacesTitleForm_def spaceBeforeAmountForm_def netGarbled_def
  netRefusesThenListsNone_def
  acknowledged_def created_def listed_def coffeeForm_def lunch_def rent_def water_def
  lunchOnly_def lunchOnlyOffline_def rentOnly_def lunchAndRent_def coffeeAfterLunch_def
  blankTitleForm_def negativeAmountForm_def lettersAmountForm_def infiniteAmountForm_def
  withSnapshot_def netDown_def netError_def netRefuses_def netAcknowledges_def netCreates_def
  netLists_def netRefusesThenCreates_def netCreatesThenError_def netCreatesThenLists_def
  netAcknowledgesThenListsNone_def netAcknowledgesThenListsWater_def coffee_def

lemmas vocabulary_defs = validForm_def raises_def confirmed_def delivered_def reachable_def
  replacedByReload_def

subsection \<open>One push, the loop of pushes, the synchronisation\<close>

lemma requests_append: "requests (xs @ ys) = requests xs @ requests ys"
  by (induction xs rule: requests.induct) simp_all

text \<open>A push issues exactly one request, whatever comes of it.\<close>

lemma push_requests:
  "requests (trace (snd (saveExpenseToBackend c ev e w))) = requests (trace w) @ [SaveExpenses e]"
  by (simp add: saveExpenseToBackend_def saveExpenseToBackend_try_def effect_defs Let_def
      requests_append split: promise.splits response.splits body.splits)

lemma push_nfetch:
  "nfetch (snd (saveExpenseToBackend c ev e w)) = Suc (nfetch w)"
  by (simp add: saveExpenseToBackend_def saveExpenseToBackend_try_def effect_defs Let_def
      split: promise.splits response.splits body.splits)

text \<open>With the device storage working, a push is rejected exactly when its request
  raises; a rejected push has gone offline; and a push either leaves the collection or
  sets it to the closure's list with the pushed expense marked.\<close>

lemma push_rejected:
  "disk ev (nstore w) \<Longrightarrow>
   fst (saveExpenseToBackend c ev e w) = Rejected \<longleftrightarrow> raises (net ev (nfetch w))"
  by (simp add: saveExpenseToBackend_def saveExpenseToBackend_try_def effect_defs Let_def
      raises_def split: promise.splits response.splits body.splits)

lemma push_offline:
  "fst (saveExpenseToBackend c ev e w) = Rejected \<longrightarrow>
   \<not> isOnline (pending (snd (saveExpenseToBackend c ev e w)))"
  by (simp add: saveExpenseToBackend_def saveExpenseToBackend_try_def effect_defs Let_def
      split: promise.splits response.splits body.splits)

lemma push_expenses:
  "expenses (pending (snd (saveExpenseToBackend c ev e w))) = expenses (pending w) \<or>
   (\<exists>j. expenses (pending (snd (saveExpenseToBackend c ev e w))) =
         map (markSynced e j) (expenses c))"
  by (auto simp add: saveExpenseToBackend_def saveExpenseToBackend_try_def effect_defs Let_def
      split: promise.splits response.splits body.splits)

text \<open>The loop when no request raises, and when the first to raise is at position
  \<open>k\<close>.\<close>

lemma saveEach_complete:
  assumes disk: "\<forall>n. disk ev n"
  shows "(\<forall>j<length xs. \<not> raises (net ev (nfetch w + j))) \<Longrightarrow>
     fst (saveEach c ev xs w) = Resolved () \<and>
     requests (trace (snd (saveEach c ev xs w))) = requests (trace w) @ map SaveExpenses xs \<and>
     nfetch (snd (saveEach c ev xs w)) = nfetch w + length xs"
proof (induction xs arbitrary: w)
  case Nil
  show ?case by simp
next
  case (Cons x xs)
  obtain r w1 where step: "saveExpenseToBackend c ev x w = (r, w1)"
    by (cases "saveExpenseToBackend c ev x w")
  from Cons.prems have "\<not> raises (net ev (nfetch w))" by force
  with disk step push_rejected [of ev w c x] have r: "r = Resolved ()"
    by (cases r) simp_all
  from step push_nfetch [of c ev x w] have n1: "nfetch w1 = Suc (nfetch w)" by simp
  from step push_requests [of c ev x w]
  have t1: "requests (trace w1) = requests (trace w) @ [SaveExpenses x]" by simp
  have "\<forall>j<length xs. \<not> raises (net ev (nfetch w1 + j))"
  proof (intro allI impI)
    fix j assume "j < length xs"
    then have "Suc j < length (x # xs)" by simp
    with Cons.prems have "\<not> raises (net ev (nfetch w + Suc j))" by blast
    with n1 show "\<not> raises (net ev (nfetch w1 + j))" by simp
  qed
  from Cons.IH [OF this] step r n1 t1 show ?case by simp
qed

lemma saveEach_abort:
  assumes disk: "\<forall>n. disk ev n"
  shows "k < length xs \<Longrightarrow> raises (net ev (nfetch w + k)) \<Longrightarrow>
     (\<forall>j<k. \<not> raises (net ev (nfetch w + j))) \<Longrightarrow>
     fst (saveEach c ev xs w) = Rejected \<and>
     requests (trace (snd (saveEach c ev xs w))) =
       requests (trace w) @ map SaveExpenses (take (Suc k) xs) \<and>
     \<not> isOnline (pending (snd (saveEach c ev xs w))) \<and>
     (expenses (pending (snd (saveEach c ev xs w))) = expenses (pending w) \<or>
      (\<exists>p\<in>set (take (Suc k) xs). \<exists>j.
         expenses (pending (snd (saveEach c ev xs w))) = map (markSynced p j) (expenses c)))"
proof (induction xs arbitrary: w k)
  case Nil
  then show ?case by simp
next
  case (Cons x xs)
  obtain r w1 where step: "saveExpenseToBackend c ev x w = (r, w1)"
    by (cases "saveExpenseToBackend c ev x w")
  from step push_requests [of c ev x w]
  have t1: "requests (trace w1) = requests (trace w) @ [SaveExpenses x]" by simp
  from step push_expenses [of c ev x w]
  have e1: "expenses (pending w1) = expenses (pending w) \<or>
            (\<exists>j. expenses (pending w1) = map (markSynced x j) (expenses c))" by simp
  show ?case
  proof (cases k)
    case 0
    with Cons.prems have "raises (net ev (nfetch w))" by simp
    with disk step push_rejected [of ev w c x] have r: "r = Rejected" by simp
    with step push_offline [of c ev x w] have "\<not> isOnline (pending w1)" by simp
    with 0 step r t1 e1 show ?thesis by auto
  next
    case (Suc k')
    with Cons.prems have "\<not> raises (net ev (nfetch w))" by force
    with disk step push_rejected [of ev w c x] have r: "r = Resolved ()"
      by (cases r) simp_all
    from step push_nfetch [of c ev x w] have n1: "nfetch w1 = Suc (nfetch w)" by simp
    from Suc Cons.prems have k': "k' < length xs" by simp
    from Suc Cons.prems n1 have rk: "raises (net ev (nfetch w1 + k'))" by simp
    have "\<forall>j<k'. \<not> raises (net ev (nfetch w1 + j))"
    proof (intro allI impI)
      fix j assume "j < k'"
      with Suc have "Suc j < k" by simp
      with Cons.prems have "\<not> raises (net ev (nfetch w + Suc j))" by blast
      with n1 show "\<not> raises (net ev (nfetch w1 + j))" by simp
    qed
    from Cons.IH [OF k' rk this] step r Suc t1 e1 show ?thesis by auto
  qed
qed

lemma load_requests:
  "requests (trace (snd (loadDataFromDatabase ev w))) = requests (trace w) @ [LoadExpenses]"
  by (simp add: loadDataFromDatabase_def loadDataFromDatabase_try_def effect_defs Let_def
      requests_append split: promise.splits response.splits body.splits option.splits)

text \<open>\<^verbatim>\<open>syncWithBackend\<close> catches whatever its body throws.\<close>

lemma sync_resolves: "fst (syncWithBackend c ev xs w) = Resolved ()"
  by (simp add: syncWithBackend_def split: prod.splits promise.splits)

lemma sync_nothing:
  "filter unsynced xs = [] \<Longrightarrow> syncWithBackend c ev xs w = (Resolved (), w)"
  by (simp add: syncWithBackend_def syncWithBackend_try_def)

lemma sync_complete:
  assumes disk: "\<forall>n. disk ev n"
    and some: "filter unsynced xs \<noteq> []"
    and none: "\<forall>j<length (filter unsynced xs). \<not> raises (net ev (nfetch w + j))"
  shows "requests (trace (snd (syncWithBackend c ev xs w))) =
           requests (trace w) @ map SaveExpenses (filter unsynced xs) @ [LoadExpenses]"
proof -
  obtain r w1 where loop: "saveEach c ev (filter unsynced xs) w = (r, w1)"
    by (cases "saveEach c ev (filter unsynced xs) w")
  from saveEach_complete [OF disk none, of c] loop
  have r: "r = Resolved ()"
    and t: "requests (trace w1) = requests (trace w) @ map SaveExpenses (filter unsynced xs)"
    by simp_all
  obtain r2 w2 where load: "loadDataFromDatabase ev w1 = (r2, w2)"
    by (cases "loadDataFromDatabase ev w1")
  from load load_requests [of ev w1] t
  have "requests (trace w2) =
          requests (trace w) @ map SaveExpenses (filter unsynced xs) @ [LoadExpenses]"
    by simp
  with some loop r load show ?thesis
    by (cases r2) (simp_all add: syncWithBackend_def syncWithBackend_try_def toast_def emit_def
        requests_append)
qed

lemma sync_abort:
  assumes disk: "\<forall>n. disk ev n"
    and k: "k < length (filter unsynced xs)"
    and rk: "raises (net ev (nfetch w + k))"
    and before: "\<forall>j<k. \<not> raises (net ev (nfetch w + j))"
  shows "requests (trace (snd (syncWithBackend c ev xs w))) =
           requests (trace w) @ map SaveExpenses (take (Suc k) (filter unsynced xs)) \<and>
         \<not> isOnline (pending (snd (syncWithBackend c ev xs w))) \<and>
         (expenses (pending (snd (syncWithBackend c ev xs w))) = expenses (pending w) \<or>
          (\<exists>p\<in>set (take (Suc k) (filter unsynced xs)). \<exists>j.
             expenses (pending (snd (syncWithBackend c ev xs w))) =
               map (markSynced p j) (expenses c)))"
proof -
  obtain r w1 where loop: "saveEach c ev (filter unsynced xs) w = (r, w1)"
    by (cases "saveEach c ev (filter unsynced xs) w")
  from k have some: "filter unsynced xs \<noteq> []" by auto
  from saveEach_abort [OF disk k rk before, of c] loop
  have r: "r = Rejected"
    and rest: "requests (trace w1) =
                 requests (trace w) @ map SaveExpenses (take (Suc k) (filter unsynced xs))"
      "\<not> isOnline (pending w1)"
      "expenses (pending w1) = expenses (pending w) \<or>
       (\<exists>p\<in>set (take (Suc k) (filter unsynced xs)). \<exists>j.
          expenses (pending w1) = map (markSynced p j) (expenses c))"
    by simp_all
  from some loop r
  have "snd (syncWithBackend c ev xs w) =
          toast WARNING ''Sync Failed'' ''Could not sync with server. Data saved locally.'' w1"
    by (simp add: syncWithBackend_def syncWithBackend_try_def)
  with rest show ?thesis
    by (simp add: toast_def emit_def requests_append)
qed

lemma sync_trace_grows: "\<exists>es. trace (snd (syncWithBackend c ev xs w)) = trace w @ es"
proof -
  have push: "\<exists>es. trace (snd (saveExpenseToBackend c ev e v)) = trace v @ es" for e v
    by (simp add: saveExpenseToBackend_def saveExpenseToBackend_try_def effect_defs Let_def
        split: promise.splits response.splits body.splits)
  have loop: "\<exists>es. trace (snd (saveEach c ev ys v)) = trace v @ es" for ys v
  proof (induction ys arbitrary: v)
    case Nil
    show ?case by simp
  next
    case (Cons y ys)
    obtain r v1 where step: "saveExpenseToBackend c ev y v = (r, v1)"
      by (cases "saveExpenseToBackend c ev y v")
    from push [of y v] step obtain es where es: "trace v1 = trace v @ es" by auto
    from Cons.IH [of v1] obtain fs where "trace (snd (saveEach c ev ys v1)) = trace v1 @ fs"
      by blast
    with es step show ?case by (cases r) simp_all
  qed
  have load: "\<exists>es. trace (snd (loadDataFromDatabase ev v)) = trace v @ es" for v
    by (simp add: loadDataFromDatabase_def loadDataFromDatabase_try_def effect_defs Let_def
        split: promise.splits response.splits body.splits option.splits)
  obtain r w1 where l: "saveEach c ev (filter unsynced xs) w = (r, w1)"
    by (cases "saveEach c ev (filter unsynced xs) w")
  from loop [of "filter unsynced xs" w] l obtain es where es: "trace w1 = trace w @ es" by auto
  obtain r2 w2 where d: "loadDataFromDatabase ev w1 = (r2, w2)"
    by (cases "loadDataFromDatabase ev w1")
  from load [of w1] d es obtain fs where fs: "trace w2 = trace w @ fs" by auto
  from l d es fs show ?thesis
    by (cases r; cases r2)
       (simp_all add: syncWithBackend_def syncWithBackend_try_def toast_def emit_def Let_def)
qed

subsection \<open>Adding\<close>

lemma saveExpenses_resolves: "fst (saveExpenses c ev xs w) = Resolved ()"
  by (simp add: saveExpenses_def setItem_def sync_resolves)

lemma add_resolves: "fst (addExpense c ev w) = Resolved ()"
proof -
  obtain r w1 where s: "saveExpenses c ev (newExpense c ev # expenses c)
                          (setExpenses (newExpense c ev # expenses c) w) = (r, w1)"
    by (cases "saveExpenses c ev (newExpense c ev # expenses c)
                 (setExpenses (newExpense c ev # expenses c) w)")
  with saveExpenses_resolves [of c ev "newExpense c ev # expenses c"
      "setExpenses (newExpense c ev # expenses c) w"]
  have "r = Resolved ()" by simp
  with s show ?thesis
    by (simp add: addExpense_def Let_def)
qed

lemma add_valid:
  assumes "validForm c"
  shows "snd (addExpense c ev w) =
           toast SUCCESS ''Success'' ''Expense added successfully''
             (setCategory ''Food'' (setAmount [] (setTitle []
                (snd (saveExpenses c ev (newExpense c ev # expenses c)
                        (setExpenses (newExpense c ev # expenses c) w))))))"
proof -
  obtain r w1 where s: "saveExpenses c ev (newExpense c ev # expenses c)
                          (setExpenses (newExpense c ev # expenses c) w) = (r, w1)"
    by (cases "saveExpenses c ev (newExpense c ev # expenses c)
                 (setExpenses (newExpense c ev # expenses c) w)")
  with saveExpenses_resolves [of c ev "newExpense c ev # expenses c"
      "setExpenses (newExpense c ev # expenses c) w"]
  have "r = Resolved ()" by simp
  with assms s show ?thesis
    by (simp add: addExpense_def validForm_def Let_def)
qed

lemma saveExpenses_online:
  "disk ev (nstore w) \<Longrightarrow> isOnline c \<Longrightarrow>
   saveExpenses c ev xs w = syncWithBackend c ev xs (snd (setItem ev xs w))"
  by (simp add: saveExpenses_def setItem_def)

lemma apart_ids:
  assumes "distinct (map id' xs)"
    and "p \<in> set (take n (filter P xs))"
    and "e \<in> set (drop n (filter P xs))"
  shows "id' e \<noteq> id' p"
proof -
  from assms(1) have "distinct (map id' (filter P xs))"
    by (rule distinct_map_filter)
  then have "distinct (map id' (take n (filter P xs)) @ map id' (drop n (filter P xs)))"
    by (simp flip: map_append)
  then have "set (map id' (take n (filter P xs))) \<inter> set (map id' (drop n (filter P xs))) = {}"
    by simp
  with assms(2,3) show ?thesis by fastforce
qed

lemma markSynced_other: "id' e \<noteq> id' p \<Longrightarrow> markSynced p j e = e"
  by (simp add: markSynced_def)

lemma unsynced_new: "unsynced (newExpense c ev)"
  by (simp add: unsynced_def newExpense_def)

text \<open>
  C1, as the component has it. With the closure online and the device storage working,
  \<^verbatim>\<open>addExpense\<close> on a form that passes the checks pushes the unsynced expenses of
  the updated list, the new one first, one after the other in list order, and never
  rejects. If the first push whose request raises (no response, or an ok response with
  an unreadable body) is the one at position \<open>k\<close>, exactly the pushes up to it are
  issued, nothing is reloaded, the flag ends offline, and, the ids being distinct, every
  expense behind it is still in the collection and still unsynced. If no request
  raises, every push is issued and a reload follows: an answer with an error status or
  with \<^verbatim>\<open>status: false\<close> does not end the loop.
\<close>

theorem C1_push_until_request_raises:
  assumes valid: "validForm c" and online: "isOnline c" and disk: "\<forall>n. disk ev n"
  shows "let us = filter unsynced (newExpense c ev # expenses c);
             w' = snd (addExpense c ev w)
         in fst (addExpense c ev w) = Resolved () \<and>
            (k < length us \<and>
             raises (net ev (nfetch w + k)) \<and> (\<forall>j<k. \<not> raises (net ev (nfetch w + j))) \<longrightarrow>
               requests (trace w') = requests (trace w) @ map SaveExpenses (take (Suc k) us) \<and>
               \<not> isOnline (pending w') \<and>
               (distinct (map id' (newExpense c ev # expenses c)) \<longrightarrow>
                  (\<forall>e\<in>set (drop (Suc k) us). unsynced e \<and> e \<in> set (expenses (pending w'))))) \<and>
            ((\<forall>j<length us. \<not> raises (net ev (nfetch w + j))) \<longrightarrow>
               requests (trace w') = requests (trace w) @ map SaveExpenses us @ [LoadExpenses])"
proof -
  define upd where "upd = newExpense c ev # expenses c"
  define us where "us = filter unsynced upd"
  define wB where "wB = snd (setItem ev upd (setExpenses upd w))"
  define wS where "wS = snd (syncWithBackend c ev upd wB)"
  define w' where "w' = snd (addExpense c ev w)"
  from disk have wB: "nfetch wB = nfetch w" "requests (trace wB) = requests (trace w)"
      "expenses (pending wB) = upd"
    by (simp_all add: wB_def effect_defs requests_append)
  from disk online have "saveExpenses c ev upd (setExpenses upd w) = syncWithBackend c ev upd wB"
    unfolding wB_def by (intro saveExpenses_online) (simp_all add: effect_defs)
  with add_valid [OF valid, of ev w]
  have w': "w' = toast SUCCESS ''Success'' ''Expense added successfully''
                   (setCategory ''Food'' (setAmount [] (setTitle [] wS)))"
    by (simp add: w'_def wS_def upd_def)
  then have proj: "requests (trace w') = requests (trace wS)"
      "isOnline (pending w') = isOnline (pending wS)"
      "expenses (pending w') = expenses (pending wS)"
    by (simp_all add: effect_defs requests_append)
  have us_new: "us = newExpense c ev # filter unsynced (expenses c)"
    by (simp add: us_def upd_def unsynced_new)
  have abort: "requests (trace w') = requests (trace w) @ map SaveExpenses (take (Suc k) us) \<and>
               \<not> isOnline (pending w') \<and>
               (distinct (map id' upd) \<longrightarrow>
                  (\<forall>e\<in>set (drop (Suc k) us). unsynced e \<and> e \<in> set (expenses (pending w'))))"
    if k: "k < length us" and rk: "raises (net ev (nfetch w + k))"
      and before: "\<forall>j<k. \<not> raises (net ev (nfetch w + j))" for k
  proof -
    from k rk before wB
    have "k < length (filter unsynced upd)" "raises (net ev (nfetch wB + k))"
        "\<forall>j<k. \<not> raises (net ev (nfetch wB + j))"
      by (simp_all add: us_def)
    from sync_abort [OF disk this, of c] wB proj
    have t: "requests (trace w') = requests (trace w) @ map SaveExpenses (take (Suc k) us)"
      and off: "\<not> isOnline (pending w')"
      and coll: "expenses (pending w') = upd \<or>
                 (\<exists>p\<in>set (take (Suc k) us). \<exists>j.
                    expenses (pending w') = map (markSynced p j) (expenses c))"
      by (simp_all add: wS_def us_def)
    have "unsynced e \<and> e \<in> set (expenses (pending w'))"
      if d: "distinct (map id' upd)" and e: "e \<in> set (drop (Suc k) us)" for e
    proof -
      from e have eus: "e \<in> set us" by (rule in_set_dropD)
      then have un: "unsynced e" and eupd: "e \<in> set upd" by (simp_all add: us_def)
      from e us_new have "e \<in> set (drop k (filter unsynced (expenses c)))" by simp
      then have eold: "e \<in> set (expenses c)" by (auto dest: in_set_dropD)
      from coll show ?thesis
      proof
        assume "expenses (pending w') = upd"
        with un eupd show ?thesis by simp
      next
        assume "\<exists>p\<in>set (take (Suc k) us). \<exists>j.
                  expenses (pending w') = map (markSynced p j) (expenses c)"
        then obtain p j where p: "p \<in> set (take (Suc k) us)"
          and m: "expenses (pending w') = map (markSynced p j) (expenses c)" by blast
        from apart_ids [OF d, of p "Suc k" unsynced e] p e
        have "id' e \<noteq> id' p" by (simp add: us_def)
        then have "markSynced p j e = e" by (rule markSynced_other)
        with eold have "e \<in> markSynced p j ` set (expenses c)" by force
        with m un show ?thesis by simp
      qed
    qed
    with t off show ?thesis by blast
  qed
  have complete: "requests (trace w') = requests (trace w) @ map SaveExpenses us @ [LoadExpenses]"
    if none: "\<forall>j<length us. \<not> raises (net ev (nfetch w + j))"
  proof -
    from us_new have "filter unsynced upd \<noteq> []" by (simp add: us_def)
    moreover from none wB
    have "\<forall>j<length (filter unsynced upd). \<not> raises (net ev (nfetch wB + j))"
      by (simp add: us_def)
    ultimately show ?thesis
      using sync_complete [OF disk, of upd wB c] wB proj by (simp add: wS_def us_def)
  qed
  have "fst (addExpense c ev w) = Resolved () \<and>
        (k < length us \<and>
         raises (net ev (nfetch w + k)) \<and> (\<forall>j<k. \<not> raises (net ev (nfetch w + j))) \<longrightarrow>
           requests (trace w') = requests (trace w) @ map SaveExpenses (take (Suc k) us) \<and>
           \<not> isOnline (pending w') \<and>
           (distinct (map id' upd) \<longrightarrow>
              (\<forall>e\<in>set (drop (Suc k) us). unsynced e \<and> e \<in> set (expenses (pending w'))))) \<and>
        ((\<forall>j<length us. \<not> raises (net ev (nfetch w + j))) \<longrightarrow>
           requests (trace w') = requests (trace w) @ map SaveExpenses us @ [LoadExpenses])"
    using abort complete add_resolves [of c ev w] by blast
  then show ?thesis
    unfolding Let_def us_def upd_def w'_def .
qed

text \<open>C1 at a concrete input: the lunch in the list, the form filled in for a coffee, and
  a network that answers nothing. The first push raises; the second is never issued, and
  the lunch stays in the collection, unsynced.\<close>

theorem C1_push_until_request_raises_witness:
  "validForm coffeeAfterLunch \<and> isOnline coffeeAfterLunch \<and> (\<forall>n. disk netDown n) \<and>
   raises (net netDown 0) \<and>
   requests (trace (snd (addExpense coffeeAfterLunch netDown (freshWorld coffeeAfterLunch)))) =
     [SaveExpenses coffee] \<and>
   \<not> isOnline (pending (snd (addExpense coffeeAfterLunch netDown (freshWorld coffeeAfterLunch)))) \<and>
   unsynced lunch \<and>
   lunch \<in> set (expenses (pending (snd (addExpense coffeeAfterLunch netDown
                                           (freshWorld coffeeAfterLunch)))))"
proof -
  let ?c = coffeeAfterLunch
  let ?w = "freshWorld coffeeAfterLunch"
  have v: "validForm ?c" by (simp add: validForm_def input_defs js_defs)
  have on: "isOnline ?c" by (simp add: input_defs)
  have d: "\<forall>n. disk netDown n" by (simp add: input_defs)
  have r: "raises (net netDown 0)" by (simp add: input_defs raises_def)
  have new: "newExpense ?c netDown = coffee"
    by (simp add: newExpense_def input_defs js_defs)
  have us: "filter unsynced (newExpense ?c netDown # expenses ?c) = [coffee, lunch]"
    by (simp add: new) (simp add: unsynced_def input_defs)
  have ids: "distinct (map id' (newExpense ?c netDown # expenses ?c))"
    by (simp add: new) (simp add: input_defs)
  have start: "nfetch ?w = 0" "trace ?w = []" by (simp_all add: freshWorld_def)
  note T = C1_push_until_request_raises [OF v on d, where k = 0 and w = "?w",
      unfolded Let_def us]
  from T r ids start
  have "requests (trace (snd (addExpense ?c netDown ?w))) = [SaveExpenses coffee]"
    and "\<not> isOnline (pending (snd (addExpense ?c netDown ?w)))"
    and "unsynced lunch \<and> lunch \<in> set (expenses (pending (snd (addExpense ?c netDown ?w))))"
    by simp_all
  with v on d r show ?thesis by blast
qed

text \<open>C1 as stated fails: the first push is answered with \<^verbatim>\<open>{status: false}\<close>, so
  it has failed; the push of the remaining expense and the reload are issued all the
  same, and the flag is still online at the end.\<close>

theorem C1_refused_push_does_not_abort:
  "\<not> confirmed (net netRefusesThenCreates 0) \<and>
   requests (trace (snd (addExpense coffeeAfterLunch netRefusesThenCreates
                           (freshWorld coffeeAfterLunch)))) =
     [SaveExpenses coffee, SaveExpenses lunch, LoadExpenses] \<and>
   isOnline (pending (snd (addExpense coffeeAfterLunch netRefusesThenCreates
                             (freshWorld coffeeAfterLunch))))"
  by (simp add: input_defs handler_defs effect_defs js_defs vocabulary_defs Let_def)

text \<open>
  C2 fails on the component. The form for a coffee is submitted online with an empty
  list; the backend answers the push with \<^verbatim>\<open>{status: true, id: 42}\<close> and the reload
  that follows with an error status. The push maps over the list of the closure, which
  does not hold the new expense: the collection and the stored item are set back to the
  empty list, and no expense with \<^verbatim>\<open>synced: true\<close> and \<^verbatim>\<open>backendId: 42\<close> is left.
\<close>

theorem C2_pushed_expense_is_dropped:
  "validForm coffeeForm \<and> isOnline coffeeForm \<and> expenses coffeeForm = [] \<and>
   confirmed (net netCreatesThenError 0) \<and>
   requests (trace (snd (addExpense coffeeForm netCreatesThenError (freshWorld coffeeForm)))) =
     [SaveExpenses coffee, LoadExpenses] \<and>
   expenses (pending (snd (addExpense coffeeForm netCreatesThenError (freshWorld coffeeForm)))) =
     [] \<and>
   storage (snd (addExpense coffeeForm netCreatesThenError (freshWorld coffeeForm))) = Some []"
  by (simp add: input_defs handler_defs effect_defs js_defs vocabulary_defs Let_def)

subsection \<open>Loading\<close>

text \<open>
  C3, as the component has it. \<^verbatim>\<open>loadExpenses\<close> never rejects. Online, when the
  backend delivers a list and the device storage takes the write, the collection and
  the stored item are that list with every expense marked synced. Offline, or when the
  request raises, the stored snapshot is what is read: the collection is the snapshot
  when it is there and can be read, and is left as it was when nothing is stored or the
  storage cannot be read; the stored item is not touched. Online, when the backend
  answers with an error status, with \<^verbatim>\<open>status: false\<close> or without a list, nothing is
  read: collection and stored item stay as they were. In every case the collection ends
  as exactly one of the three: what it was, the delivered list marked synced, or the
  snapshot.
\<close>

theorem C3_load_from_one_source:
  "let w' = snd (loadExpenses c ev w) in
   fst (loadExpenses c ev w) = Resolved () \<and>
   (isOnline c \<and> delivered (net ev (nfetch w)) = Some xs \<and> disk ev (nstore w) \<longrightarrow>
      expenses (pending w') = map (\<lambda>e. e\<lparr>synced := Some True\<rparr>) xs \<and>
      storage w' = Some (map (\<lambda>e. e\<lparr>synced := Some True\<rparr>) xs)) \<and>
   (\<not> isOnline c \<or> raises (net ev (nfetch w)) \<longrightarrow>
      storage w' = storage w \<and>
      (disk ev (nstore w) \<and> storage w = Some s \<longrightarrow> expenses (pending w') = jsonRoundTrip s) \<and>
      (storage w = None \<or> (\<forall>m. \<not> disk ev m) \<longrightarrow> expenses (pending w') = expenses (pending w))) \<and>
   (isOnline c \<and> \<not> raises (net ev (nfetch w)) \<and> delivered (net ev (nfetch w)) = None \<longrightarrow>
      expenses (pending w') = expenses (pending w) \<and> storage w' = storage w \<and>
      nstore w' = nstore w) \<and>
   (expenses (pending w') = expenses (pending w) \<or>
    (\<exists>ys. delivered (net ev (nfetch w)) = Some ys \<and>
          expenses (pending w') = map (\<lambda>e. e\<lparr>synced := Some True\<rparr>) ys) \<or>
    (\<exists>t. storage w = Some t \<and> expenses (pending w') = jsonRoundTrip t))"
  unfolding Let_def
  by (cases "net ev (nfetch w)")
     (auto simp add: loadExpenses_def loadDataFromDatabase_def loadDataFromDatabase_try_def
        readStored_def effect_defs raises_def delivered_def Let_def
        split: response.splits body.splits option.splits)

text \<open>C3 at concrete inputs: the backend delivers the lunch; and the network is down
  while the device holds a snapshot with the rent.\<close>

theorem C3_load_from_one_source_witness:
  "isOnline initialState \<and> delivered (net netLists 0) = Some [lunch] \<and>
   expenses (pending (snd (loadExpenses initialState netLists (freshWorld initialState)))) =
     [lunch\<lparr>synced := Some True\<rparr>] \<and>
   storage (snd (loadExpenses initialState netLists (freshWorld initialState))) =
     Some [lunch\<lparr>synced := Some True\<rparr>] \<and>
   raises (net netDown 0) \<and>
   expenses (pending (snd (loadExpenses initialState netDown (withSnapshot initialState)))) =
     [rent]"
proof -
  let ?w = "freshWorld initialState"
  let ?w2 = "withSnapshot initialState"
  have on: "isOnline initialState" by (simp add: input_defs)
  have del: "delivered (net netLists (nfetch ?w)) = Some [lunch]"
    by (simp add: input_defs delivered_def)
  have dk: "disk netLists (nstore ?w)" by (simp add: input_defs)
  have r: "raises (net netDown (nfetch ?w2))" by (simp add: input_defs raises_def)
  have dk2: "disk netDown (nstore ?w2)" "storage ?w2 = Some [rent]"
    by (simp_all add: input_defs)
  have rt: "jsonRoundTrip [rent] = [rent]"
    by (simp add: jsonRoundTrip_def jsonAmount_def rent_def)
  note A = C3_load_from_one_source [of initialState netLists ?w "[lunch]", unfolded Let_def]
  note B = C3_load_from_one_source [of initialState netDown ?w2 _ "[rent]", unfolded Let_def]
  from A on del dk
  have 1: "expenses (pending (snd (loadExpenses initialState netLists ?w))) =
             map (\<lambda>e. e\<lparr>synced := Some True\<rparr>) [lunch] \<and>
           storage (snd (loadExpenses initialState netLists ?w)) =
             Some (map (\<lambda>e. e\<lparr>synced := Some True\<rparr>) [lunch])"
    by blast
  from B r dk2
  have 2: "expenses (pending (snd (loadExpenses initialState netDown ?w2))) =
             jsonRoundTrip [rent]"
    by blast
  from del r have "delivered (net netLists 0) = Some [lunch]" "raises (net netDown 0)"
    by (simp_all add: input_defs)
  with on 1 2 rt show ?thesis by simp
qed

text \<open>C3 as stated fails: the request is answered with \<^verbatim>\<open>{status: false}\<close>, so the
  remote fetch has failed; the device holds a snapshot with the rent, the snapshot is
  not read, and the collection is left empty.\<close>

theorem C3_refused_load_skips_the_snapshot:
  "isOnline initialState \<and> \<not> confirmed (net netRefuses 0) \<and>
   storage (withSnapshot initialState) = Some [rent] \<and>
   expenses (pending (snd (loadExpenses initialState netRefuses (withSnapshot initialState)))) =
     [] \<and>
   nstore (snd (loadExpenses initialState netRefuses (withSnapshot initialState))) = 0"
  by (simp add: input_defs handler_defs effect_defs vocabulary_defs Let_def)

subsection \<open>Deleting\<close>

text \<open>
  C4 fails on the component. The rent, synced, is deleted online from a list that holds
  nothing else, the device holding a snapshot with it; the backend answers
  \<^verbatim>\<open>{status: false}\<close>. The handler sets the collection to the empty list, asks the
  backend, and reports \<^verbatim>\<open>Deleted locally, but server delete failed\<close>; it makes no
  storage call, and the snapshot still holds the rent.
\<close>

theorem C4_snapshot_keeps_the_deleted_expense:
  "isOnline rentOnly \<and> find (\<lambda>x. id' x = ''17'') (expenses rentOnly) = Some rent \<and>
   synced rent = Some True \<and> \<not> confirmed (net netRefuses 0) \<and>
   deleteExpense rentOnly netRefuses ''17'' (withSnapshot rentOnly) =
     (Resolved (),
      \<lparr>pending = rentOnly\<lparr>expenses := []\<rparr>,
       storage = Some [rent],
       trace = [SetExpenses [], Fetch (DeleteExpenses ''17''),
                Toast WARNING ''Partial Success'' ''Deleted locally, but server delete failed'',
                DialogHide],
       nfetch = 1, nstore = 0\<rparr>)"
  by (simp add: input_defs handler_defs effect_defs js_defs vocabulary_defs Let_def)

subsection \<open>Retrying\<close>

text \<open>
  C5, as the component has it. \<^verbatim>\<open>retrySync\<close> never rejects. With the closure
  offline it probes; when the probe does not find the backend it issues no other
  request, reports \<^verbatim>\<open>Offline\<close>, and leaves flag, collection and stored item as they
  were. With the closure online it does not probe and runs \<^verbatim>\<open>syncWithBackend\<close> on
  the list, the function \<^verbatim>\<open>addExpense\<close> reaches too: when the first push whose
  request raises is at position \<open>k\<close>, the pushes up to it are issued and nothing is
  reloaded; when expenses are unsynced and no request raises, every unsynced expense is
  pushed in list order and a reload follows.
\<close>

theorem C5_retry:
  "let w' = snd (retrySync c ev w); us = filter unsynced (expenses c) in
   fst (retrySync c ev w) = Resolved () \<and>
   (\<not> isOnline c \<and> \<not> reachable ev (nfetch w) \<longrightarrow>
      requests (trace w') = requests (trace w) @ [LoadExpenses] \<and>
      last (trace w') = Toast WARNING ''Offline'' ''No internet connection available'' \<and>
      \<not> isOnline (pending w') \<and>
      expenses (pending w') = expenses (pending w) \<and> storage w' = storage w) \<and>
   (isOnline c \<and> (\<forall>n. disk ev n) \<and> k < length us \<and>
    raises (net ev (nfetch w + k)) \<and> (\<forall>j<k. \<not> raises (net ev (nfetch w + j))) \<longrightarrow>
      requests (trace w') = requests (trace w) @ map SaveExpenses (take (Suc k) us)) \<and>
   (isOnline c \<and> (\<forall>n. disk ev n) \<and> us \<noteq> [] \<and>
    (\<forall>j<length us. \<not> raises (net ev (nfetch w + j))) \<longrightarrow>
      requests (trace w') = requests (trace w) @ map SaveExpenses us @ [LoadExpenses])"
proof -
  define us where "us = filter unsynced (expenses c)"
  define w' where "w' = snd (retrySync c ev w)"
  have res: "fst (retrySync c ev w) = Resolved ()"
    using sync_resolves [of c ev "expenses c" w]
    by (cases "syncWithBackend c ev (expenses c) w")
       (simp add: retrySync_def checkNetworkStatus_def race_def effect_defs
          split: promise.splits response.splits)
  have offline: "requests (trace w') = requests (trace w) @ [LoadExpenses] \<and>
      last (trace w') = Toast WARNING ''Offline'' ''No internet connection available'' \<and>
      \<not> isOnline (pending w') \<and>
      expenses (pending w') = expenses (pending w) \<and> storage w' = storage w"
    if "\<not> isOnline c" "\<not> reachable ev (nfetch w)"
    using that unfolding w'_def
    by (auto simp add: retrySync_def checkNetworkStatus_def race_def effect_defs reachable_def
        requests_append split: promise.splits response.splits)
  have online: "w' = toast SUCCESS ''Sync Complete'' ''All expenses synced with server''
                       (snd (syncWithBackend c ev (expenses c) w))"
    if "isOnline c"
    using that sync_resolves [of c ev "expenses c" w] unfolding w'_def
    by (cases "syncWithBackend c ev (expenses c) w") (simp add: retrySync_def)
  have abort: "requests (trace w') = requests (trace w) @ map SaveExpenses (take (Suc k) us)"
    if "isOnline c" "\<forall>n. disk ev n" "k < length us" "raises (net ev (nfetch w + k))"
      "\<forall>j<k. \<not> raises (net ev (nfetch w + j))"
    using online [OF that(1)] sync_abort [OF that(2), of k "expenses c" w c] that(3-5)
    by (simp add: us_def toast_def emit_def requests_append)
  have complete: "requests (trace w') = requests (trace w) @ map SaveExpenses us @ [LoadExpenses]"
    if "isOnline c" "\<forall>n. disk ev n" "us \<noteq> []" "\<forall>j<length us. \<not> raises (net ev (nfetch w + j))"
    using online [OF that(1)] sync_complete [OF that(2), of "expenses c" w c] that(3,4)
    by (simp add: us_def toast_def emit_def requests_append)
  from res offline abort complete
  have "fst (retrySync c ev w) = Resolved () \<and>
   (\<not> isOnline c \<and> \<not> reachable ev (nfetch w) \<longrightarrow>
      requests (trace w') = requests (trace w) @ [LoadExpenses] \<and>
      last (trace w') = Toast WARNING ''Offline'' ''No internet connection available'' \<and>
      \<not> isOnline (pending w') \<and>
      expenses (pending w') = expenses (pending w) \<and> storage w' = storage w) \<and>
   (isOnline c \<and> (\<forall>n. disk ev n) \<and> k < length us \<and>
    raises (net ev (nfetch w + k)) \<and> (\<forall>j<k. \<not> raises (net ev (nfetch w + j))) \<longrightarrow>
      requests (trace w') = requests (trace w) @ map SaveExpenses (take (Suc k) us)) \<and>
   (isOnline c \<and> (\<forall>n. disk ev n) \<and> us \<noteq> [] \<and>
    (\<forall>j<length us. \<not> raises (net ev (nfetch w + j))) \<longrightarrow>
      requests (trace w') = requests (trace w) @ map SaveExpenses us @ [LoadExpenses])"
    by blast
  then show ?thesis unfolding Let_def us_def w'_def .
qed

text \<open>C5 at concrete inputs: offline with the network down; and online with the lunch to
  push and a backend that takes it.\<close>

theorem C5_retry_witness:
  "\<not> isOnline lunchOnlyOffline \<and> \<not> reachable netDown 0 \<and>
   requests (trace (snd (retrySync lunchOnlyOffline netDown (freshWorld lunchOnlyOffline)))) =
     [LoadExpenses] \<and>
   expenses (pending (snd (retrySync lunchOnlyOffline netDown (freshWorld lunchOnlyOffline)))) =
     [lunch] \<and>
   isOnline lunchOnly \<and>
   requests (trace (snd (retrySync lunchOnly netCreatesThenLists (freshWorld lunchOnly)))) =
     [SaveExpenses lunch, LoadExpenses]"
proof -
  let ?c = lunchOnlyOffline
  let ?w = "freshWorld lunchOnlyOffline"
  let ?c2 = lunchOnly
  let ?ev2 = netCreatesThenLists
  let ?w2 = "freshWorld lunchOnly"
  have off: "\<not> isOnline ?c" "\<not> reachable netDown (nfetch ?w)"
    by (simp_all add: input_defs reachable_def)
  have on: "isOnline ?c2" "\<forall>n. disk ?ev2 n" "filter unsynced (expenses ?c2) = [lunch]"
    "\<forall>j<length [lunch]. \<not> raises (net ?ev2 (nfetch ?w2 + j))"
    by (simp_all add: input_defs unsynced_def raises_def)
  note A = C5_retry [of ?c netDown ?w, unfolded Let_def]
  note B = C5_retry [of ?c2 ?ev2 ?w2, unfolded Let_def on(3)]
  from A off
  have 1: "requests (trace (snd (retrySync ?c netDown ?w))) = requests (trace ?w) @ [LoadExpenses]"
      "expenses (pending (snd (retrySync ?c netDown ?w))) = expenses (pending ?w)"
    by blast+
  from B on(1,2,4)
  have 2: "requests (trace (snd (retrySync ?c2 ?ev2 ?w2))) =
             requests (trace ?w2) @ map SaveExpenses [lunch] @ [LoadExpenses]"
    by blast
  have start: "trace ?w = []" "expenses (pending ?w) = [lunch]" "trace ?w2 = []"
    by (simp_all add: input_defs)
  from off have "\<not> reachable netDown 0" by (simp add: input_defs)
  with 1 2 off(1) on(1) start show ?thesis by simp
qed

text \<open>C5 as stated fails: online with the lunch unsynced and a backend that answers
  every request with an ok response whose body cannot be read, so that a probe would
  have found it. \<^verbatim>\<open>retrySync\<close> issues the push of the lunch and nothing else: it
  has not probed, and it does not reload.\<close>

theorem C5_online_retry_neither_probes_nor_reloads:
  "isOnline lunchOnly \<and> filter unsynced (expenses lunchOnly) = [lunch] \<and>
   reachable netGarbled 0 \<and>
   requests (trace (snd (retrySync lunchOnly netGarbled (freshWorld lunchOnly)))) =
     [SaveExpenses lunch]"
  by (simp add: input_defs handler_defs effect_defs vocabulary_defs Let_def)

subsection \<open>Checking the form\<close>

text \<open>\<^verbatim>\<open>parseFloat\<close> returns a number, never \<^verbatim>\<open>null\<close>; and the amounts the second
  check of \<^verbatim>\<open>addExpense\<close> turns away are those that are neither positive and finite
  nor positive infinity.\<close>

lemma toDouble_cases:
  "toDouble q = PosInf \<or> toDouble q = NegInf \<or> (\<exists>r. toDouble q = Fin r)"
  by (simp add: toDouble_def)

lemma parseFloat_cases:
  "parseFloat s = NaN \<or> parseFloat s = PosInf \<or> parseFloat s = NegInf \<or>
   (\<exists>q. parseFloat s = Fin q)"
proof -
  obtain neg u where su: "skipSign (trimStart s) = (neg, u)"
    by (cases "skipSign (trimStart s)")
  show ?thesis
  proof (cases "take 8 u = js ''Infinity''")
    case True
    with su show ?thesis by (simp add: parseFloat_def)
  next
    case False
    with su toDouble_cases show ?thesis
      by (simp add: parseFloat_def Let_def)
  qed
qed

lemma rejected_amount:
  "isNaN (parseFloat s) \<or> le0 (parseFloat s) \<longleftrightarrow>
   parseFloat s \<noteq> PosInf \<and> (\<forall>q. parseFloat s = Fin q \<longrightarrow> q \<le> 0)"
  using parseFloat_cases [of s] by auto

text \<open>
  C6, as the component has it. \<^verbatim>\<open>addExpense\<close> reports \<^verbatim>\<open>Please fill in all fields\<close>
  when the title or the amount text is empty after trimming, that is, holds nothing but
  white space and line terminators of the language, and
  \<^verbatim>\<open>Please enter a valid amount greater than 0\<close> when both are there and
  \<^verbatim>\<open>parseFloat\<close> of the amount text is NaN, negative infinity or a finite number
  that is at most 0. The form passes exactly when title and amount text are there and
  the amount parses to a positive finite number or to positive infinity: nothing asks
  whether the amount is finite. In every case in which the form does not pass, the
  state, the stored item and the counts of requests and storage calls are as before:
  nothing but the notification has happened.
\<close>

theorem C6_validation:
  "(trim (titleInput c) = [] \<or> trim (amountInput c) = [] \<longrightarrow>
      addExpense c ev w =
        (Resolved (), toast DANGER ''Error'' ''Please fill in all fields'' w)) \<and>
   (trim (titleInput c) \<noteq> [] \<and> trim (amountInput c) \<noteq> [] \<and>
    parseFloat (amountInput c) \<noteq> PosInf \<and>
    (\<forall>q. parseFloat (amountInput c) = Fin q \<longrightarrow> q \<le> 0) \<longrightarrow>
      addExpense c ev w =
        (Resolved (),
         toast DANGER ''Error'' ''Please enter a valid amount greater than 0'' w)) \<and>
   (validForm c \<longleftrightarrow>
      trim (titleInput c) \<noteq> [] \<and> trim (amountInput c) \<noteq> [] \<and>
      (parseFloat (amountInput c) = PosInf \<or>
       (\<exists>q>0. parseFloat (amountInput c) = Fin q))) \<and>
   (\<not> validForm c \<longrightarrow>
      pending (snd (addExpense c ev w)) = pending w \<and>
      storage (snd (addExpense c ev w)) = storage w \<and>
      nstore (snd (addExpense c ev w)) = nstore w \<and>
      nfetch (snd (addExpense c ev w)) = nfetch w)"
proof -
  let ?a = "parseFloat (amountInput c)"
  have missing: "addExpense c ev w =
      (Resolved (), toast DANGER ''Error'' ''Please fill in all fields'' w)"
    if "trim (titleInput c) = [] \<or> trim (amountInput c) = []"
    using that by (simp add: addExpense_def)
  have invalid: "addExpense c ev w =
      (Resolved (), toast DANGER ''Error'' ''Please enter a valid amount greater than 0'' w)"
    if "trim (titleInput c) \<noteq> []" "trim (amountInput c) \<noteq> []" "isNaN ?a \<or> le0 ?a"
    using that by (simp add: addExpense_def Let_def)
  have accepted: "validForm c \<longleftrightarrow>
      trim (titleInput c) \<noteq> [] \<and> trim (amountInput c) \<noteq> [] \<and>
      (?a = PosInf \<or> (\<exists>q>0. ?a = Fin q))"
    using rejected_amount [of "amountInput c"] parseFloat_cases [of "amountInput c"]
    by (auto simp add: validForm_def)
  have untouched: "pending (snd (addExpense c ev w)) = pending w \<and>
      storage (snd (addExpense c ev w)) = storage w \<and>
      nstore (snd (addExpense c ev w)) = nstore w \<and>
      nfetch (snd (addExpense c ev w)) = nfetch w"
    if "\<not> validForm c"
  proof (cases "trim (titleInput c) = [] \<or> trim (amountInput c) = []")
    case True
    from missing [OF True] show ?thesis by (simp add: toast_def emit_def)
  next
    case False
    with that have "isNaN ?a \<or> le0 ?a" by (auto simp add: validForm_def)
    with False invalid show ?thesis by (simp add: toast_def emit_def)
  qed
  from missing invalid accepted untouched rejected_amount [of "amountInput c"]
  show ?thesis by blast
qed

text \<open>C6 at concrete inputs: a title of blanks, a title of a no-break space and an em
  space, a negative amount, an amount of letters, and an amount text that begins with a
  no-break space and passes.\<close>

theorem C6_validation_witness:
  "addExpense blankTitleForm netDown (freshWorld blankTitleForm) =
     (Resolved (),
      toast DANGER ''Error'' ''Please fill in all fields'' (freshWorld blankTitleForm)) \<and>
   addExpense spacesTitleForm netDown (freshWorld spacesTitleForm) =
     (Resolved (),
      toast DANGER ''Error'' ''Please fill in all fields'' (freshWorld spacesTitleForm)) \<and>
   addExpense negativeAmountForm netDown (freshWorld negativeAmountForm) =
     (Resolved (),
      toast DANGER ''Error'' ''Please enter a valid amount greater than 0''
        (freshWorld negativeAmountForm)) \<and>
   \<not> validForm lettersAmountForm \<and>
   expenses (pending (snd (addExpense lettersAmountForm netDown
                             (freshWorld lettersAmountForm)))) = [] \<and>
   storage (snd (addExpense lettersAmountForm netDown (freshWorld lettersAmountForm))) = None \<and>
   parseFloat (amountInput spaceBeforeAmountForm) = Fin 5 \<and>
   validForm spaceBeforeAmountForm"
proof -
  have blank: "trim (titleInput blankTitleForm) = []"
    by (simp add: input_defs js_defs)
  have spaces: "trim (titleInput spacesTitleForm) = []"
    by (simp add: input_defs js_defs)
  have parsed: "parseFloat (amountInput negativeAmountForm) = Fin (- (5 / 2))"
    by (simp add: input_defs js_defs)
  have negative:
    "trim (titleInput negativeAmountForm) \<noteq> [] \<and> trim (amountInput negativeAmountForm) \<noteq> [] \<and>
     parseFloat (amountInput negativeAmountForm) \<noteq> PosInf \<and>
     (\<forall>q. parseFloat (amountInput negativeAmountForm) = Fin q \<longrightarrow> q \<le> 0)"
    by (simp add: parsed) (simp add: input_defs js_defs)
  have letters: "\<not> validForm lettersAmountForm"
    by (simp add: validForm_def input_defs js_defs)
  have five: "parseFloat (amountInput spaceBeforeAmountForm) = Fin 5"
    by (simp add: input_defs js_defs)
  have there: "trim (titleInput spaceBeforeAmountForm) \<noteq> []"
      "trim (amountInput spaceBeforeAmountForm) \<noteq> []"
    by (simp_all add: input_defs js_defs)
  note T1 = C6_validation [of blankTitleForm netDown "freshWorld blankTitleForm"]
  note T2 = C6_validation [of negativeAmountForm netDown "freshWorld negativeAmountForm"]
  note T3 = C6_validation [of lettersAmountForm netDown "freshWorld lettersAmountForm"]
  note T4 = C6_validation [of spacesTitleForm netDown "freshWorld spacesTitleForm"]
  note T5 = C6_validation [of spaceBeforeAmountForm netDown "freshWorld spaceBeforeAmountForm"]
  from T1 blank
  have 1: "addExpense blankTitleForm netDown (freshWorld blankTitleForm) =
             (Resolved (),
              toast DANGER ''Error'' ''Please fill in all fields'' (freshWorld blankTitleForm))"
    by blast
  from T2 negative
  have 2: "addExpense negativeAmountForm netDown (freshWorld negativeAmountForm) =
             (Resolved (),
              toast DANGER ''Error'' ''Please enter a valid amount greater than 0''
                (freshWorld negativeAmountForm))"
    by blast
  from T3 letters
  have 3: "pending (snd (addExpense lettersAmountForm netDown (freshWorld lettersAmountForm))) =
             pending (freshWorld lettersAmountForm)"
    "storage (snd (addExpense lettersAmountForm netDown (freshWorld lettersAmountForm))) =
       storage (freshWorld lettersAmountForm)"
    by blast+
  from T4 spaces
  have 4: "addExpense spacesTitleForm netDown (freshWorld spacesTitleForm) =
             (Resolved (),
              toast DANGER ''Error'' ''Please fill in all fields'' (freshWorld spacesTitleForm))"
    by blast
  have "(0::rat) < 5" by simp
  with five have "\<exists>q>0. parseFloat (amountInput spaceBeforeAmountForm) = Fin q" by blast
  with T5 there have 5: "validForm spaceBeforeAmountForm" by blast
  have start: "expenses (pending (freshWorld lettersAmountForm)) = []"
      "storage (freshWorld lettersAmountForm) = None"
    by (simp_all add: input_defs)
  from 3 start
  have "expenses (pending (snd (addExpense lettersAmountForm netDown
                                  (freshWorld lettersAmountForm)))) = []"
    "storage (snd (addExpense lettersAmountForm netDown (freshWorld lettersAmountForm))) = None"
    by simp_all
  with 1 2 4 5 five letters show ?thesis by blast
qed

text \<open>C6 as stated fails: the amount text \<^verbatim>\<open>Infinity\<close> does not parse to a finite
  number, and the expense is added with an infinite amount.\<close>

theorem C6_infinite_amount_is_accepted:
  "parseFloat (amountInput infiniteAmountForm) = PosInf \<and>
   expenses (pending (snd (addExpense infiniteAmountForm netDown
                             (freshWorld infiniteAmountForm)))) =
     [coffee\<lparr>amount := PosInf\<rparr>]"
  by (simp add: input_defs handler_defs effect_defs js_defs Let_def)

subsection \<open>What adding leaves\<close>

text \<open>A push the backend does not confirm leaves the collection and the stored item as
  they are, and rejects exactly when its request raises; so does a loop of such pushes.\<close>

lemma push_unconfirmed:
  "\<not> confirmed (net ev (nfetch w)) \<Longrightarrow>
   expenses (pending (snd (saveExpenseToBackend c ev e w))) = expenses (pending w) \<and>
   storage (snd (saveExpenseToBackend c ev e w)) = storage w \<and>
   (fst (saveExpenseToBackend c ev e w) = Rejected \<longleftrightarrow> raises (net ev (nfetch w)))"
  by (cases "net ev (nfetch w)")
     (auto simp add: saveExpenseToBackend_def saveExpenseToBackend_try_def effect_defs Let_def
        confirmed_def raises_def split: response.splits body.splits)

lemma saveEach_unconfirmed:
  "(\<forall>j<length xs. \<not> confirmed (net ev (nfetch w + j))) \<Longrightarrow>
   expenses (pending (snd (saveEach c ev xs w))) = expenses (pending w) \<and>
   storage (snd (saveEach c ev xs w)) = storage w \<and>
   (fst (saveEach c ev xs w) = Rejected \<longleftrightarrow> (\<exists>j<length xs. raises (net ev (nfetch w + j)))) \<and>
   (fst (saveEach c ev xs w) = Resolved () \<longrightarrow>
      nfetch (snd (saveEach c ev xs w)) = nfetch w + length xs)"
proof (induction xs arbitrary: w)
  case Nil
  show ?case by simp
next
  case (Cons x xs)
  obtain r w1 where step: "saveExpenseToBackend c ev x w = (r, w1)"
    by (cases "saveExpenseToBackend c ev x w")
  from Cons.prems have "\<not> confirmed (net ev (nfetch w))" by force
  from push_unconfirmed [OF this, of c x] step
  have keep: "expenses (pending w1) = expenses (pending w)" "storage w1 = storage w"
    and rej: "r = Rejected \<longleftrightarrow> raises (net ev (nfetch w))"
    by simp_all
  from step push_nfetch [of c ev x w] have n1: "nfetch w1 = Suc (nfetch w)" by simp
  show ?case
  proof (cases r)
    case Rejected
    with rej have "raises (net ev (nfetch w + 0))" by simp
    then have "\<exists>j<length (x # xs). raises (net ev (nfetch w + j))" by blast
    with Rejected step keep show ?thesis by simp
  next
    case (Resolved u)
    with rej have no: "\<not> raises (net ev (nfetch w))" by simp
    have "\<forall>j<length xs. \<not> confirmed (net ev (nfetch w1 + j))"
    proof (intro allI impI)
      fix j assume "j < length xs"
      then have "Suc j < length (x # xs)" by simp
      with Cons.prems have "\<not> confirmed (net ev (nfetch w + Suc j))" by blast
      with n1 show "\<not> confirmed (net ev (nfetch w1 + j))" by simp
    qed
    note IH = Cons.IH [OF this]
    have "(\<exists>j<length (x # xs). raises (net ev (nfetch w + j))) \<longleftrightarrow>
          (\<exists>j<length xs. raises (net ev (nfetch w1 + j)))"
    proof
      assume "\<exists>j<length (x # xs). raises (net ev (nfetch w + j))"
      then obtain j where j: "j < length (x # xs)" "raises (net ev (nfetch w + j))" by blast
      with no have "j \<noteq> 0" by (cases j) auto
      then obtain j' where "j = Suc j'" by (cases j) auto
      with j n1 show "\<exists>j<length xs. raises (net ev (nfetch w1 + j))" by auto
    next
      assume "\<exists>j<length xs. raises (net ev (nfetch w1 + j))"
      then obtain j where "j < length xs" "raises (net ev (nfetch w1 + j))" by blast
      with n1 have "Suc j < length (x # xs)" "raises (net ev (nfetch w + Suc j))" by simp_all
      then show "\<exists>j<length (x # xs). raises (net ev (nfetch w + j))" by blast
    qed
    with IH Resolved step keep n1 show ?thesis by simp
  qed
qed

text \<open>What a reload does to the collection and the stored item, by what it delivers.\<close>

lemma load_undelivered:
  "delivered (net ev (nfetch w)) = None \<Longrightarrow>
   expenses (pending (snd (loadDataFromDatabase ev w))) = expenses (pending w) \<and>
   storage (snd (loadDataFromDatabase ev w)) = storage w"
  by (cases "net ev (nfetch w)")
     (auto simp add: loadDataFromDatabase_def loadDataFromDatabase_try_def effect_defs
        delivered_def Let_def split: response.splits body.splits option.splits if_splits)

lemma load_delivered:
  "delivered (net ev (nfetch w)) = Some ys \<Longrightarrow>
   expenses (pending (snd (loadDataFromDatabase ev w))) = map (\<lambda>e. e\<lparr>synced := Some True\<rparr>) ys \<and>
   (disk ev (nstore w) \<longrightarrow>
      storage (snd (loadDataFromDatabase ev w)) = Some (map (\<lambda>e. e\<lparr>synced := Some True\<rparr>) ys))"
  by (cases "net ev (nfetch w)")
     (auto simp add: loadDataFromDatabase_def loadDataFromDatabase_try_def effect_defs
        delivered_def Let_def split: response.splits body.splits option.splits if_splits)

text \<open>The synchronisation when no push is confirmed and no list is delivered: collection
  and stored item stay as they are.\<close>

lemma sync_unconfirmed:
  assumes none: "\<forall>j<length (filter unsynced xs). \<not> confirmed (net ev (nfetch w + j))"
    and quiet: "(\<exists>j<length (filter unsynced xs). raises (net ev (nfetch w + j))) \<or>
                delivered (net ev (nfetch w + length (filter unsynced xs))) = None"
  shows "expenses (pending (snd (syncWithBackend c ev xs w))) = expenses (pending w) \<and>
         storage (snd (syncWithBackend c ev xs w)) = storage w"
proof (cases "filter unsynced xs = []")
  case True
  then show ?thesis by (simp add: sync_nothing)
next
  case False
  obtain r w1 where loop: "saveEach c ev (filter unsynced xs) w = (r, w1)"
    by (cases "saveEach c ev (filter unsynced xs) w")
  from saveEach_unconfirmed [OF none, of c] loop
  have keep: "expenses (pending w1) = expenses (pending w)" "storage w1 = storage w"
    and rej: "r = Rejected \<longleftrightarrow>
                (\<exists>j<length (filter unsynced xs). raises (net ev (nfetch w + j)))"
    and pos: "r = Resolved () \<longrightarrow> nfetch w1 = nfetch w + length (filter unsynced xs)"
    by simp_all
  show ?thesis
  proof (cases r)
    case Rejected
    with False loop keep show ?thesis
      by (simp add: syncWithBackend_def syncWithBackend_try_def toast_def emit_def)
  next
    case (Resolved u)
    with rej quiet pos
    have "delivered (net ev (nfetch w1)) = None" by auto
    from load_undelivered [OF this] keep
    have l: "expenses (pending (snd (loadDataFromDatabase ev w1))) = expenses (pending w)"
        "storage (snd (loadDataFromDatabase ev w1)) = storage w"
      by simp_all
    obtain r2 w2 where load: "loadDataFromDatabase ev w1 = (r2, w2)"
      by (cases "loadDataFromDatabase ev w1")
    with l False loop Resolved show ?thesis
      by (cases r2)
         (simp_all add: syncWithBackend_def syncWithBackend_try_def toast_def emit_def)
  qed
qed

text \<open>The synchronisation when no request raises and the reload delivers a list.\<close>

lemma sync_delivered:
  assumes disk: "\<forall>n. disk ev n"
    and some: "filter unsynced xs \<noteq> []"
    and none: "\<forall>j<length (filter unsynced xs). \<not> raises (net ev (nfetch w + j))"
    and del: "delivered (net ev (nfetch w + length (filter unsynced xs))) = Some ys"
  shows "expenses (pending (snd (syncWithBackend c ev xs w))) =
           map (\<lambda>e. e\<lparr>synced := Some True\<rparr>) ys \<and>
         storage (snd (syncWithBackend c ev xs w)) =
           Some (map (\<lambda>e. e\<lparr>synced := Some True\<rparr>) ys)"
proof -
  obtain r w1 where loop: "saveEach c ev (filter unsynced xs) w = (r, w1)"
    by (cases "saveEach c ev (filter unsynced xs) w")
  from saveEach_complete [OF disk none, of c] loop
  have r: "r = Resolved ()" and pos: "nfetch w1 = nfetch w + length (filter unsynced xs)"
    by simp_all
  from del pos have "delivered (net ev (nfetch w1)) = Some ys" by simp
  from load_delivered [OF this] disk
  have l: "expenses (pending (snd (loadDataFromDatabase ev w1))) =
             map (\<lambda>e. e\<lparr>synced := Some True\<rparr>) ys"
      "storage (snd (loadDataFromDatabase ev w1)) =
         Some (map (\<lambda>e. e\<lparr>synced := Some True\<rparr>) ys)"
    by simp_all
  obtain r2 w2 where load: "loadDataFromDatabase ev w1 = (r2, w2)"
    by (cases "loadDataFromDatabase ev w1")
  with l some loop r show ?thesis
    by (cases r2)
       (simp_all add: syncWithBackend_def syncWithBackend_try_def toast_def emit_def)
qed

text \<open>
  C7, as the component has it. On a form that passes the checks, the first thing
  \<^verbatim>\<open>addExpense\<close> does is set the collection to a list one longer than the closure's,
  whose head is the new expense (with the temporary id made from the clock and the
  random suffix, and \<^verbatim>\<open>synced: false\<close>) and whose tail is the closure's list; the
  second is to write that very list to the device storage. Every request comes after
  these two. When the write fails or the closure is offline there is no request and
  this list is the collection the handler leaves, and offline after a write that
  succeeded it is the stored item. Online after a write that succeeded, it is still the
  collection and the stored item at the end when the backend confirms no push and either
  the request of some push raises or the reload delivers no list. But when no request
  raises and the reload delivers a list, on a device whose storage takes every write,
  the collection and the stored item at the end are the delivered list with every
  expense marked synced, whatever has been added.
\<close>

theorem C7_add_is_local_first:
  assumes "validForm c"
  shows "\<exists>xs rest.
           trace (snd (addExpense c ev w)) =
             trace w @ SetExpenses xs # SetItem xs (disk ev (nstore w)) # rest \<and>
           length xs = Suc (length (expenses c)) \<and>
           hd xs = newExpense c ev \<and> tl xs = expenses c \<and>
           id' (hd xs) = ''tmp-'' @ showNat (now ev) @ ''-'' @ rnd ev \<and>
           synced (hd xs) = Some False \<and>
           (\<not> disk ev (nstore w) \<or> \<not> isOnline c \<longrightarrow>
              requests rest = [] \<and> expenses (pending (snd (addExpense c ev w))) = xs) \<and>
           (disk ev (nstore w) \<and> \<not> isOnline c \<longrightarrow> storage (snd (addExpense c ev w)) = Some xs) \<and>
           (isOnline c \<and> disk ev (nstore w) \<and>
            (\<forall>j<length (filter unsynced xs). \<not> confirmed (net ev (nfetch w + j))) \<and>
            ((\<exists>j<length (filter unsynced xs). raises (net ev (nfetch w + j))) \<or>
             delivered (net ev (nfetch w + length (filter unsynced xs))) = None) \<longrightarrow>
              expenses (pending (snd (addExpense c ev w))) = xs \<and>
              storage (snd (addExpense c ev w)) = Some xs) \<and>
           (isOnline c \<and> (\<forall>n. disk ev n) \<and>
            (\<forall>j<length (filter unsynced xs). \<not> raises (net ev (nfetch w + j))) \<and>
            delivered (net ev (nfetch w + length (filter unsynced xs))) = Some ys \<longrightarrow>
              expenses (pending (snd (addExpense c ev w))) =
                map (\<lambda>e. e\<lparr>synced := Some True\<rparr>) ys \<and>
              storage (snd (addExpense c ev w)) =
                Some (map (\<lambda>e. e\<lparr>synced := Some True\<rparr>) ys))"
proof -
  define upd where "upd = newExpense c ev # expenses c"
  define us where "us = filter unsynced upd"
  define wA where "wA = setExpenses upd w"
  define wB where "wB = snd (setItem ev upd wA)"
  define wS where "wS = snd (saveExpenses c ev upd wA)"
  define w' where "w' = snd (addExpense c ev w)"
  have w': "w' = toast SUCCESS ''Success'' ''Expense added successfully''
                   (setCategory ''Food'' (setAmount [] (setTitle [] wS)))"
    using add_valid [OF assms, of ev w] by (simp add: w'_def wS_def wA_def upd_def)
  then have proj: "expenses (pending w') = expenses (pending wS)" "storage w' = storage wS"
    by (simp_all add: effect_defs)
  have some: "filter unsynced upd \<noteq> []"
    by (simp add: upd_def unsynced_new)
  have first: "\<exists>mid. trace wS = trace w @ SetExpenses upd # SetItem upd (disk ev (nstore w)) # mid \<and>
          (\<not> disk ev (nstore w) \<or> \<not> isOnline c \<longrightarrow>
             requests mid = [] \<and> expenses (pending wS) = upd) \<and>
          (disk ev (nstore w) \<and> \<not> isOnline c \<longrightarrow> storage wS = Some upd)"
  proof (cases "disk ev (nstore w) \<and> isOnline c")
    case True
    then have "wS = snd (syncWithBackend c ev upd wB)"
      by (simp add: wS_def wB_def saveExpenses_def setItem_def wA_def setExpenses_def emit_def)
    with sync_trace_grows [of c ev upd wB] obtain es where "trace wS = trace wB @ es"
      by auto
    moreover from True have "trace wB = trace w @ [SetExpenses upd, SetItem upd True]"
      by (simp add: wB_def wA_def effect_defs)
    ultimately show ?thesis using True by simp
  next
    case False
    then show ?thesis
      by (auto simp add: wS_def wA_def saveExpenses_def effect_defs)
  qed
  have online: "wS = snd (syncWithBackend c ev upd wB) \<and> nfetch wB = nfetch w \<and>
                expenses (pending wB) = upd \<and> storage wB = Some upd"
    if "isOnline c" "disk ev (nstore w)"
    using that
    by (simp add: wS_def wB_def saveExpenses_def setItem_def wA_def setExpenses_def emit_def)
  have quiet: "expenses (pending w') = upd \<and> storage w' = Some upd"
    if "isOnline c" "disk ev (nstore w)"
      "\<forall>j<length us. \<not> confirmed (net ev (nfetch w + j))"
      "(\<exists>j<length us. raises (net ev (nfetch w + j))) \<or>
       delivered (net ev (nfetch w + length us)) = None"
  proof -
    from online [OF that(1,2)]
    have o: "wS = snd (syncWithBackend c ev upd wB)" "nfetch wB = nfetch w"
        "expenses (pending wB) = upd" "storage wB = Some upd"
      by simp_all
    from that(3,4) o(2)
    have "\<forall>j<length (filter unsynced upd). \<not> confirmed (net ev (nfetch wB + j))"
        "(\<exists>j<length (filter unsynced upd). raises (net ev (nfetch wB + j))) \<or>
         delivered (net ev (nfetch wB + length (filter unsynced upd))) = None"
      by (simp_all add: us_def)
    from sync_unconfirmed [OF this, of c] o proj show ?thesis by simp
  qed
  have replaced: "expenses (pending w') = map (\<lambda>e. e\<lparr>synced := Some True\<rparr>) ys \<and>
                  storage w' = Some (map (\<lambda>e. e\<lparr>synced := Some True\<rparr>) ys)"
    if "isOnline c" "\<forall>n. disk ev n"
      "\<forall>j<length us. \<not> raises (net ev (nfetch w + j))"
      "delivered (net ev (nfetch w + length us)) = Some ys"
  proof -
    from that(2) have "disk ev (nstore w)" by simp
    from online [OF that(1) this]
    have o: "wS = snd (syncWithBackend c ev upd wB)" "nfetch wB = nfetch w"
      by simp_all
    from that(3,4) o(2)
    have "\<forall>j<length (filter unsynced upd). \<not> raises (net ev (nfetch wB + j))"
        "delivered (net ev (nfetch wB + length (filter unsynced upd))) = Some ys"
      by (simp_all add: us_def)
    from sync_delivered [OF that(2) some this, of c] o proj show ?thesis by simp
  qed
  from first obtain mid where mid:
      "trace wS = trace w @ SetExpenses upd # SetItem upd (disk ev (nstore w)) # mid"
      "\<not> disk ev (nstore w) \<or> \<not> isOnline c \<longrightarrow> requests mid = [] \<and> expenses (pending wS) = upd"
      "disk ev (nstore w) \<and> \<not> isOnline c \<longrightarrow> storage wS = Some upd"
    by blast
  let ?rest = "mid @ [SetTitle [], SetAmount [], SetCategory ''Food'',
                       Toast SUCCESS ''Success'' ''Expense added successfully'']"
  from w' mid(1)
  have 1: "trace w' = trace w @ SetExpenses upd # SetItem upd (disk ev (nstore w)) # ?rest"
    by (simp add: effect_defs)
  from mid(2) proj
  have 2: "\<not> disk ev (nstore w) \<or> \<not> isOnline c \<longrightarrow>
             requests ?rest = [] \<and> expenses (pending w') = upd"
    by (simp add: requests_append)
  from mid(3) proj
  have 3: "disk ev (nstore w) \<and> \<not> isOnline c \<longrightarrow> storage w' = Some upd"
    by simp
  have 4: "length upd = Suc (length (expenses c))" "hd upd = newExpense c ev"
      "tl upd = expenses c" "id' (hd upd) = ''tmp-'' @ showNat (now ev) @ ''-'' @ rnd ev"
      "synced (hd upd) = Some False"
    by (simp_all add: upd_def newExpense_def)
  have "trace w' = trace w @ SetExpenses upd # SetItem upd (disk ev (nstore w)) # ?rest \<and>
        length upd = Suc (length (expenses c)) \<and>
        hd upd = newExpense c ev \<and> tl upd = expenses c \<and>
        id' (hd upd) = ''tmp-'' @ showNat (now ev) @ ''-'' @ rnd ev \<and>
        synced (hd upd) = Some False \<and>
        (\<not> disk ev (nstore w) \<or> \<not> isOnline c \<longrightarrow>
           requests ?rest = [] \<and> expenses (pending w') = upd) \<and>
        (disk ev (nstore w) \<and> \<not> isOnline c \<longrightarrow> storage w' = Some upd) \<and>
        (isOnline c \<and> disk ev (nstore w) \<and>
         (\<forall>j<length (filter unsynced upd). \<not> confirmed (net ev (nfetch w + j))) \<and>
         ((\<exists>j<length (filter unsynced upd). raises (net ev (nfetch w + j))) \<or>
          delivered (net ev (nfetch w + length (filter unsynced upd))) = None) \<longrightarrow>
           expenses (pending w') = upd \<and> storage w' = Some upd) \<and>
        (isOnline c \<and> (\<forall>n. disk ev n) \<and>
         (\<forall>j<length (filter unsynced upd). \<not> raises (net ev (nfetch w + j))) \<and>
         delivered (net ev (nfetch w + length (filter unsynced upd))) = Some ys \<longrightarrow>
           expenses (pending w') = map (\<lambda>e. e\<lparr>synced := Some True\<rparr>) ys \<and>
           storage w' = Some (map (\<lambda>e. e\<lparr>synced := Some True\<rparr>) ys))"
    using 1 2 3 4 quiet replaced unfolding us_def by blast
  then show ?thesis unfolding w'_def by (intro exI)
qed

text \<open>C7 at a concrete input: a coffee added online to a list holding the lunch, with a
  backend that answers \<^verbatim>\<open>{status: false}\<close> to everything, and with one that takes the
  pushes and lists the rent.\<close>

theorem C7_add_is_local_first_witness:
  "validForm coffeeAfterLunch \<and> isOnline coffeeAfterLunch \<and>
   (\<exists>xs rest.
      trace (snd (addExpense coffeeAfterLunch netRefuses (freshWorld coffeeAfterLunch))) =
        SetExpenses xs # SetItem xs True # rest \<and>
      length xs = 2 \<and> hd xs = coffee \<and> tl xs = [lunch] \<and>
      expenses (pending (snd (addExpense coffeeAfterLunch netRefuses
                                (freshWorld coffeeAfterLunch)))) = xs \<and>
      storage (snd (addExpense coffeeAfterLunch netRefuses (freshWorld coffeeAfterLunch))) =
        Some xs) \<and>
   expenses (pending (snd (addExpense coffeeAfterLunch netCreatesThenLists
                             (freshWorld coffeeAfterLunch)))) = [rent] \<and>
   storage (snd (addExpense coffeeAfterLunch netCreatesThenLists (freshWorld coffeeAfterLunch))) =
     Some [rent]"
proof -
  let ?c = coffeeAfterLunch
  let ?w = "freshWorld coffeeAfterLunch"
  let ?ev = netCreatesThenLists
  have v: "validForm ?c" by (simp add: validForm_def input_defs js_defs)
  have on: "isOnline ?c" by (simp add: input_defs)
  have new: "newExpense ?c netRefuses = coffee"
    by (simp add: newExpense_def input_defs js_defs)
  have start: "trace ?w = []" "disk netRefuses (nstore ?w)" "expenses ?c = [lunch]"
    by (simp_all add: input_defs)
  have calm: "\<forall>n. \<not> confirmed (net netRefuses n)" "\<forall>n. delivered (net netRefuses n) = None"
    by (simp_all add: input_defs confirmed_def delivered_def)
  from C7_add_is_local_first [OF v, of netRefuses ?w "[]"]
  obtain xs rest where big:
    "trace (snd (addExpense ?c netRefuses ?w)) =
       trace ?w @ SetExpenses xs # SetItem xs (disk netRefuses (nstore ?w)) # rest \<and>
     length xs = Suc (length (expenses ?c)) \<and>
     hd xs = newExpense ?c netRefuses \<and> tl xs = expenses ?c \<and>
     id' (hd xs) = ''tmp-'' @ showNat (now netRefuses) @ ''-'' @ rnd netRefuses \<and>
     synced (hd xs) = Some False \<and>
     (\<not> disk netRefuses (nstore ?w) \<or> \<not> isOnline ?c \<longrightarrow>
        requests rest = [] \<and> expenses (pending (snd (addExpense ?c netRefuses ?w))) = xs) \<and>
     (disk netRefuses (nstore ?w) \<and> \<not> isOnline ?c \<longrightarrow>
        storage (snd (addExpense ?c netRefuses ?w)) = Some xs) \<and>
     (isOnline ?c \<and> disk netRefuses (nstore ?w) \<and>
      (\<forall>j<length (filter unsynced xs). \<not> confirmed (net netRefuses (nfetch ?w + j))) \<and>
      ((\<exists>j<length (filter unsynced xs). raises (net netRefuses (nfetch ?w + j))) \<or>
       delivered (net netRefuses (nfetch ?w + length (filter unsynced xs))) = None) \<longrightarrow>
        expenses (pending (snd (addExpense ?c netRefuses ?w))) = xs \<and>
        storage (snd (addExpense ?c netRefuses ?w)) = Some xs) \<and>
     (isOnline ?c \<and> (\<forall>n. disk netRefuses n) \<and>
      (\<forall>j<length (filter unsynced xs). \<not> raises (net netRefuses (nfetch ?w + j))) \<and>
      delivered (net netRefuses (nfetch ?w + length (filter unsynced xs))) = Some [] \<longrightarrow>
        expenses (pending (snd (addExpense ?c netRefuses ?w))) =
          map (\<lambda>e. e\<lparr>synced := Some True\<rparr>) [] \<and>
        storage (snd (addExpense ?c netRefuses ?w)) =
          Some (map (\<lambda>e. e\<lparr>synced := Some True\<rparr>) []))"
    by (elim exE) (rule that)
  note t = big [THEN conjunct1]
  note l = big [THEN conjunct2, THEN conjunct1]
  note h = big [THEN conjunct2, THEN conjunct2, THEN conjunct1]
  note tl = big [THEN conjunct2, THEN conjunct2, THEN conjunct2, THEN conjunct1]
  note q = big [THEN conjunct2, THEN conjunct2, THEN conjunct2, THEN conjunct2,
      THEN conjunct2, THEN conjunct2, THEN conjunct2, THEN conjunct2, THEN conjunct1]
  from calm have "\<forall>j<length (filter unsynced xs). \<not> confirmed (net netRefuses (nfetch ?w + j))"
      "delivered (net netRefuses (nfetch ?w + length (filter unsynced xs))) = None"
    by simp_all
  with q on start(2)
  have "expenses (pending (snd (addExpense ?c netRefuses ?w))) = xs \<and>
        storage (snd (addExpense ?c netRefuses ?w)) = Some xs"
    by (elim impE) (intro conjI disjI2, assumption+)
  moreover from t l h tl new start
  have "trace (snd (addExpense ?c netRefuses ?w)) = SetExpenses xs # SetItem xs True # rest \<and>
        length xs = 2 \<and> hd xs = coffee \<and> tl xs = [lunch]"
    by simp
  ultimately have refusing: "\<exists>xs rest.
      trace (snd (addExpense ?c netRefuses ?w)) = SetExpenses xs # SetItem xs True # rest \<and>
      length xs = 2 \<and> hd xs = coffee \<and> tl xs = [lunch] \<and>
      expenses (pending (snd (addExpense ?c netRefuses ?w))) = xs \<and>
      storage (snd (addExpense ?c netRefuses ?w)) = Some xs"
    by blast
  have new2: "newExpense ?c ?ev = coffee"
    by (simp add: newExpense_def input_defs js_defs)
  have env2: "\<forall>n. disk ?ev n" "\<forall>n. \<not> raises (net ?ev n)" "nfetch ?w = 0"
      "\<forall>n>0. delivered (net ?ev n) = Some [rent]"
    by (simp_all add: input_defs raises_def delivered_def)
  have marked: "map (\<lambda>e. e\<lparr>synced := Some True\<rparr>) [rent] = [rent]"
    by (simp add: rent_def)
  from C7_add_is_local_first [OF v, of ?ev ?w "[rent]"]
  obtain ys rest2 where big2:
    "trace (snd (addExpense ?c ?ev ?w)) =
       trace ?w @ SetExpenses ys # SetItem ys (disk ?ev (nstore ?w)) # rest2 \<and>
     length ys = Suc (length (expenses ?c)) \<and>
     hd ys = newExpense ?c ?ev \<and> tl ys = expenses ?c \<and>
     id' (hd ys) = ''tmp-'' @ showNat (now ?ev) @ ''-'' @ rnd ?ev \<and>
     synced (hd ys) = Some False \<and>
     (\<not> disk ?ev (nstore ?w) \<or> \<not> isOnline ?c \<longrightarrow>
        requests rest2 = [] \<and> expenses (pending (snd (addExpense ?c ?ev ?w))) = ys) \<and>
     (disk ?ev (nstore ?w) \<and> \<not> isOnline ?c \<longrightarrow>
        storage (snd (addExpense ?c ?ev ?w)) = Some ys) \<and>
     (isOnline ?c \<and> disk ?ev (nstore ?w) \<and>
      (\<forall>j<length (filter unsynced ys). \<not> confirmed (net ?ev (nfetch ?w + j))) \<and>
      ((\<exists>j<length (filter unsynced ys). raises (net ?ev (nfetch ?w + j))) \<or>
       delivered (net ?ev (nfetch ?w + length (filter unsynced ys))) = None) \<longrightarrow>
        expenses (pending (snd (addExpense ?c ?ev ?w))) = ys \<and>
        storage (snd (addExpense ?c ?ev ?w)) = Some ys) \<and>
     (isOnline ?c \<and> (\<forall>n. disk ?ev n) \<and>
      (\<forall>j<length (filter unsynced ys). \<not> raises (net ?ev (nfetch ?w + j))) \<and>
      delivered (net ?ev (nfetch ?w + length (filter unsynced ys))) = Some [rent] \<longrightarrow>
        expenses (pending (snd (addExpense ?c ?ev ?w))) =
          map (\<lambda>e. e\<lparr>synced := Some True\<rparr>) [rent] \<and>
        storage (snd (addExpense ?c ?ev ?w)) =
          Some (map (\<lambda>e. e\<lparr>synced := Some True\<rparr>) [rent]))"
    by (elim exE) (rule that)
  note l2 = big2 [THEN conjunct2, THEN conjunct1]
  note h2 = big2 [THEN conjunct2, THEN conjunct2, THEN conjunct1]
  note s2 = big2 [THEN conjunct2, THEN conjunct2, THEN conjunct2, THEN conjunct2,
      THEN conjunct2, THEN conjunct1]
  note r2 = big2 [THEN conjunct2, THEN conjunct2, THEN conjunct2, THEN conjunct2,
      THEN conjunct2, THEN conjunct2, THEN conjunct2, THEN conjunct2, THEN conjunct2]
  from l2 have "ys \<noteq> []" by auto
  with s2 have "filter unsynced ys \<noteq> []"
    by (cases ys) (simp_all add: unsynced_def)
  then have "0 < length (filter unsynced ys)" by simp
  with env2
  have "\<forall>j<length (filter unsynced ys). \<not> raises (net ?ev (nfetch ?w + j))"
      "delivered (net ?ev (nfetch ?w + length (filter unsynced ys))) = Some [rent]"
    by simp_all
  with r2 on env2(1)
  have "expenses (pending (snd (addExpense ?c ?ev ?w))) =
          map (\<lambda>e. e\<lparr>synced := Some True\<rparr>) [rent] \<and>
        storage (snd (addExpense ?c ?ev ?w)) =
          Some (map (\<lambda>e. e\<lparr>synced := Some True\<rparr>) [rent])"
    by (elim impE) (intro conjI, assumption+)
  then have listing: "expenses (pending (snd (addExpense ?c ?ev ?w))) = [rent] \<and>
        storage (snd (addExpense ?c ?ev ?w)) = Some [rent]"
    unfolding marked .
  from v on refusing listing show ?thesis by (intro conjI) (elim conjE, assumption)+
qed

text \<open>C7 as stated fails: a coffee added online to an empty list, the push answered
  \<^verbatim>\<open>{status: false}\<close> and the reload answered with an empty list. The collection
  at the end is empty: its size has not grown and the coffee is not in it.\<close>

theorem C7_reload_replaces_the_added_expense:
  "validForm coffeeForm \<and> isOnline coffeeForm \<and> expenses coffeeForm = [] \<and>
   newExpense coffeeForm netRefusesThenListsNone = coffee \<and>
   requests (trace (snd (addExpense coffeeForm netRefusesThenListsNone
                           (freshWorld coffeeForm)))) =
     [SaveExpenses coffee, LoadExpenses] \<and>
   expenses (pending (snd (addExpense coffeeForm netRefusesThenListsNone
                             (freshWorld coffeeForm)))) = []"
  by (simp add: input_defs handler_defs effect_defs js_defs vocabulary_defs Let_def)

subsection \<open>The probe\<close>

text \<open>
  C8, as the component has it. \<^verbatim>\<open>checkNetworkStatus\<close> never rejects, and the flag it
  sets is \<^verbatim>\<open>response.ok\<close> of a response that arrives before the 5000 ms timer fires;
  it is false when the timer fires first, when no response arrives, and when the
  response has an error status.
\<close>

theorem C8_probe_is_response_ok:
  "fst (checkNetworkStatus ev w) = Resolved () \<and>
   isOnline (pending (snd (checkNetworkStatus ev w))) = reachable ev (nfetch w)"
  by (simp add: checkNetworkStatus_def race_def reachable_def effect_defs
      split: promise.splits response.splits)

text \<open>C8 as stated fails: a response with an error status, received in time, leaves the
  flag offline.\<close>

theorem C8_error_status_counts_as_offline:
  "net netError 0 = Resolved (Response False Unreadable) \<and> delay netError 0 < 5000 \<and>
   \<not> isOnline (pending (snd (checkNetworkStatus netError (freshWorld initialState))))"
  by (simp add: input_defs checkNetworkStatus_def race_def effect_defs)

subsection \<open>What a deletion removes\<close>

lemma filter_other_ids:
  "distinct (map id' xs) \<Longrightarrow>
   filter (\<lambda>x. id' x \<noteq> i) xs =
     (case find (\<lambda>x. id' x = i) xs of None \<Rightarrow> xs | Some e \<Rightarrow> remove1 e xs)"
proof (induction xs)
  case Nil
  show ?case by simp
next
  case (Cons x xs)
  show ?case
  proof (cases "id' x = i")
    case True
    with Cons.prems have "i \<notin> id' ` set xs" by simp
    then have "\<forall>y\<in>set xs. id' y \<noteq> i" by blast
    then have "filter (\<lambda>x. id' x \<noteq> i) xs = xs" by simp
    with True show ?thesis by simp
  next
    case False
    have "x \<noteq> e" if "find (\<lambda>x. id' x = i) xs = Some e" for e
      using that False by (auto simp add: find_Some_iff)
    with False Cons show ?thesis by (auto split: option.splits)
  qed
qed

lemma delete_collection:
  "\<not> replacedByReload c ev i w \<Longrightarrow>
   expenses (pending (snd (deleteExpense c ev i w))) = filter (\<lambda>x. id' x \<noteq> i) (expenses c)"
  by (cases "net ev (nfetch w)"; cases "net ev (Suc (nfetch w))")
     (auto simp add: deleteExpense_def deleteExpense_try_def deleteOnBackend_def deleteLocally_def
        loadDataFromDatabase_def loadDataFromDatabase_try_def effect_defs replacedByReload_def
        confirmed_def delivered_def Let_def
        split: option.splits response.splits body.splits if_splits)

text \<open>
  C9, as the component has it. In a collection with distinct ids, \<^verbatim>\<open>deleteExpense\<close>
  leaves the closure's list without the one expense that has the id, every other
  expense in place, and leaves the list as it is when no expense has the id - unless
  the deletion ends with the collection replaced by a reload (the expense was synced,
  the closure online, the backend confirmed and the reload delivered a list).
\<close>

theorem C9_delete_removes_exactly:
  assumes "distinct (map id' (expenses c))" and "\<not> replacedByReload c ev i w"
  shows "expenses (pending (snd (deleteExpense c ev i w))) =
           (case find (\<lambda>x. id' x = i) (expenses c) of
              None \<Rightarrow> expenses c
            | Some e \<Rightarrow> remove1 e (expenses c))"
  using delete_collection [OF assms(2)] filter_other_ids [OF assms(1), of i] by simp

text \<open>C9 at concrete inputs: the lunch, never synced, is deleted from the list of lunch
  and rent; and an id no expense has.\<close>

theorem C9_delete_removes_exactly_witness:
  "distinct (map id' (expenses lunchAndRent)) \<and>
   \<not> replacedByReload lunchAndRent netAcknowledges ''tmp-1762000000000-a1b2c3d4e''
       (freshWorld lunchAndRent) \<and>
   expenses (pending (snd (deleteExpense lunchAndRent netAcknowledges
                             ''tmp-1762000000000-a1b2c3d4e'' (freshWorld lunchAndRent)))) =
     [rent] \<and>
   \<not> replacedByReload lunchAndRent netAcknowledges ''99'' (freshWorld lunchAndRent) \<and>
   expenses (pending (snd (deleteExpense lunchAndRent netAcknowledges ''99''
                             (freshWorld lunchAndRent)))) =
     [lunch, rent]"
proof -
  let ?c = lunchAndRent
  let ?w = "freshWorld lunchAndRent"
  have d: "distinct (map id' (expenses ?c))" by (simp add: input_defs)
  have n1: "\<not> replacedByReload ?c netAcknowledges ''tmp-1762000000000-a1b2c3d4e'' ?w"
    by (simp add: replacedByReload_def input_defs)
  have n2: "\<not> replacedByReload ?c netAcknowledges ''99'' ?w"
    by (simp add: replacedByReload_def input_defs)
  have f1: "find (\<lambda>x. id' x = ''tmp-1762000000000-a1b2c3d4e'') (expenses ?c) = Some lunch"
    and f2: "find (\<lambda>x. id' x = ''99'') (expenses ?c) = None"
    and ex: "expenses ?c = [lunch, rent]"
    by (simp_all add: input_defs)
  from C9_delete_removes_exactly [OF d n1] f1 ex
  have 1: "expenses (pending (snd (deleteExpense ?c netAcknowledges
                                     ''tmp-1762000000000-a1b2c3d4e'' ?w))) = [rent]"
    by simp
  from C9_delete_removes_exactly [OF d n2] f2 ex
  have 2: "expenses (pending (snd (deleteExpense ?c netAcknowledges ''99'' ?w))) = [lunch, rent]"
    by simp
  from d n1 n2 1 2 show ?thesis by blast
qed

text \<open>C9 as stated fails: the ids are distinct, the rent is deleted, the backend confirms
  and the reload delivers the empty list; the lunch, whose id is another, is gone too.\<close>

theorem C9_reload_drops_other_expenses:
  "distinct (map id' (expenses lunchAndRent)) \<and> id' lunch \<noteq> ''17'' \<and>
   lunch \<in> set (expenses lunchAndRent) \<and>
   expenses (pending (snd (deleteExpense lunchAndRent netAcknowledgesThenListsNone ''17''
                             (freshWorld lunchAndRent)))) = []"
  by (simp add: input_defs handler_defs effect_defs Let_def)

text \<open>
  C10. When the expense with the id is synced, the closure online and the backend
  confirms the deletion, \<^verbatim>\<open>deleteExpense\<close> issues the delete request and then a
  reload. When the reload delivers a list, the collection is that list with every
  expense marked synced, so is the stored item when the device storage takes the write,
  and no expense of the closure's list that was unsynced is in the collection any more.
\<close>

theorem C10_delete_reloads:
  assumes "find (\<lambda>x. id' x = i) (expenses c) = Some e" and "synced e = Some True"
    and "isOnline c" and "confirmed (net ev (nfetch w))"
  shows "let w' = snd (deleteExpense c ev i w) in
         requests (trace w') =
           requests (trace w) @ [DeleteExpenses (deleteId ev e i), LoadExpenses] \<and>
         (delivered (net ev (Suc (nfetch w))) = Some xs \<longrightarrow>
            expenses (pending w') = map (\<lambda>x. x\<lparr>synced := Some True\<rparr>) xs \<and>
            (disk ev (nstore w) \<longrightarrow> storage w' = Some (map (\<lambda>x. x\<lparr>synced := Some True\<rparr>) xs)) \<and>
            (\<forall>u\<in>set (expenses c). unsynced u \<longrightarrow> u \<notin> set (expenses (pending w'))))"
proof -
  define w1 where "w1 = toast SUCCESS ''Success'' ''Expense deleted successfully''
      (snd (fetch ev (DeleteExpenses (deleteId ev e i))
             (setExpenses (filter (\<lambda>x. id' x \<noteq> i) (expenses c)) w)))"
  define w2 where "w2 = snd (loadDataFromDatabase ev w1)"
  define w' where "w' = snd (deleteExpense c ev i w)"
  have w1: "requests (trace w1) = requests (trace w) @ [DeleteExpenses (deleteId ev e i)]"
      "nfetch w1 = Suc (nfetch w)" "nstore w1 = nstore w"
    by (simp_all add: w1_def effect_defs requests_append)
  from assms have "deleteExpense_try c ev i w = loadDataFromDatabase ev w1"
    by (cases "net ev (nfetch w)")
       (auto simp add: deleteExpense_try_def deleteOnBackend_def w1_def confirmed_def effect_defs
          Let_def split: response.splits body.splits)
  then have w': "w' = emit DialogHide w2 \<or>
                 w' = emit DialogHide (toast DANGER ''Delete Failed'' ''Could not delete expense'' w2)"
    by (cases "loadDataFromDatabase ev w1")
       (auto simp add: w'_def w2_def deleteExpense_def split: promise.splits)
  then have proj: "requests (trace w') = requests (trace w2)" "pending w' = pending w2"
      "storage w' = storage w2"
    by (auto simp add: effect_defs requests_append)
  from load_requests [of ev w1] w1 proj
  have rq: "requests (trace w') =
              requests (trace w) @ [DeleteExpenses (deleteId ev e i), LoadExpenses]"
    by (simp add: w2_def)
  have "expenses (pending w') = map (\<lambda>x. x\<lparr>synced := Some True\<rparr>) xs \<and>
        (disk ev (nstore w) \<longrightarrow> storage w' = Some (map (\<lambda>x. x\<lparr>synced := Some True\<rparr>) xs)) \<and>
        (\<forall>u\<in>set (expenses c). unsynced u \<longrightarrow> u \<notin> set (expenses (pending w')))"
    if del: "delivered (net ev (Suc (nfetch w))) = Some xs"
  proof -
    from del w1(2,3)
    have "expenses (pending w2) = map (\<lambda>x. x\<lparr>synced := Some True\<rparr>) xs \<and>
          (disk ev (nstore w) \<longrightarrow> storage w2 = Some (map (\<lambda>x. x\<lparr>synced := Some True\<rparr>) xs))"
      by (cases "net ev (Suc (nfetch w))")
         (auto simp add: w2_def loadDataFromDatabase_def loadDataFromDatabase_try_def
            effect_defs delivered_def Let_def
            split: response.splits body.splits option.splits if_splits)
    with proj have a: "expenses (pending w') = map (\<lambda>x. x\<lparr>synced := Some True\<rparr>) xs"
      and b: "disk ev (nstore w) \<longrightarrow> storage w' = Some (map (\<lambda>x. x\<lparr>synced := Some True\<rparr>) xs)"
      by simp_all
    from a have "\<forall>u\<in>set (expenses (pending w')). \<not> unsynced u"
      by (auto simp add: unsynced_def)
    with a b show ?thesis by blast
  qed
  with rq show ?thesis unfolding Let_def w'_def by blast
qed

text \<open>C10 at a concrete input: the rent is deleted from the list of lunch and rent, and
  the reload delivers the water another client has added. The lunch is gone.\<close>

theorem C10_delete_reloads_witness:
  "find (\<lambda>x. id' x = ''17'') (expenses lunchAndRent) = Some rent \<and>
   synced rent = Some True \<and> isOnline lunchAndRent \<and>
   confirmed (net netAcknowledgesThenListsWater 0) \<and>
   delivered (net netAcknowledgesThenListsWater 1) = Some [water] \<and>
   unsynced lunch \<and> lunch \<in> set (expenses lunchAndRent) \<and>
   requests (trace (snd (deleteExpense lunchAndRent netAcknowledgesThenListsWater ''17''
                           (freshWorld lunchAndRent)))) =
     [DeleteExpenses ''17'', LoadExpenses] \<and>
   expenses (pending (snd (deleteExpense lunchAndRent netAcknowledgesThenListsWater ''17''
                             (freshWorld lunchAndRent)))) =
     [water\<lparr>synced := Some True\<rparr>] \<and>
   storage (snd (deleteExpense lunchAndRent netAcknowledgesThenListsWater ''17''
                   (freshWorld lunchAndRent))) =
     Some [water\<lparr>synced := Some True\<rparr>] \<and>
   lunch \<notin> set (expenses (pending (snd (deleteExpense lunchAndRent
                                           netAcknowledgesThenListsWater ''17''
                                           (freshWorld lunchAndRent)))))"
proof -
  let ?c = lunchAndRent
  let ?ev = netAcknowledgesThenListsWater
  let ?w = "freshWorld lunchAndRent"
  have f: "find (\<lambda>x. id' x = ''17'') (expenses ?c) = Some rent" by (simp add: input_defs)
  have s: "synced rent = Some True" by (simp add: input_defs)
  have on: "isOnline ?c" by (simp add: input_defs)
  have cf: "confirmed (net ?ev (nfetch ?w))" by (simp add: input_defs confirmed_def)
  have dl: "delivered (net ?ev (Suc (nfetch ?w))) = Some [water]"
    by (simp add: input_defs delivered_def)
  have dk: "disk ?ev (nstore ?w)" by (simp add: input_defs)
  have un: "unsynced lunch" "lunch \<in> set (expenses ?c)"
    by (simp_all add: input_defs unsynced_def)
  have did: "deleteId ?ev rent ''17'' = ''17''"
    by (simp add: deleteId_def input_defs showInt_def showNat.simps)
  have start: "trace ?w = []" "nfetch ?w = 0" by (simp_all add: freshWorld_def)
  note T = C10_delete_reloads [OF f s on cf, of "[water]", unfolded Let_def]
  from T dl dk un
  have rq: "requests (trace (snd (deleteExpense ?c ?ev ''17'' ?w))) =
              requests (trace ?w) @ [DeleteExpenses (deleteId ?ev rent ''17''), LoadExpenses]"
    and ex: "expenses (pending (snd (deleteExpense ?c ?ev ''17'' ?w))) =
               map (\<lambda>x. x\<lparr>synced := Some True\<rparr>) [water]"
    and st: "storage (snd (deleteExpense ?c ?ev ''17'' ?w)) =
               Some (map (\<lambda>x. x\<lparr>synced := Some True\<rparr>) [water])"
    and gone: "lunch \<notin> set (expenses (pending (snd (deleteExpense ?c ?ev ''17'' ?w))))"
    by blast+
  from rq did start
  have "requests (trace (snd (deleteExpense ?c ?ev ''17'' ?w))) =
          [DeleteExpenses ''17'', LoadExpenses]"
    by simp
  moreover from ex
  have "expenses (pending (snd (deleteExpense ?c ?ev ''17'' ?w))) = [water\<lparr>synced := Some True\<rparr>]"
    by simp
  moreover from st
  have "storage (snd (deleteExpense ?c ?ev ''17'' ?w)) = Some [water\<lparr>synced := Some True\<rparr>]"
    by simp
  moreover note gone
  moreover from cf dl start
  have "confirmed (net ?ev 0)" "delivered (net ?ev 1) = Some [water]"
    by simp_all
  ultimately show ?thesis using f s on un by blast
qed

end
